theory Spec2Isabelle
  imports Complex_Main
begin

section \<open>Data model of the game server (server\_test\_11.py)\<close>

text \<open>
  The server keeps its players in a Python dictionary keyed by the sender's address.
  A Python dictionary iterates in insertion order, and the collision loop stops at
  the first player that is hit, so the dictionary is an association list here: the
  order of the list is the order of insertion, a new key is appended at the end.

  Python floats are modelled by the type \<open>real\<close>, with exact arithmetic, wherever the
  source only adds, multiplies, compares and clamps them. The one place where the source
  turns a float into an integer, the scaled collision penalty, is computed in IEEE 754
  binary64 arithmetic, rounding included, since the truncation makes the rounding
  visible. Python integers are \<open>int\<close>. A reading of the wall clock (\<open>time.time()\<close>) is a
  parameter of the operation that takes it, one parameter for each reading.

  Field names follow the dataclasses of the source; \<open>x\<close>, \<open>y\<close> and \<open>id\<close> of a player
  are \<open>pos_x\<close>, \<open>pos_y\<close> and \<open>player_id\<close>, and the fields of an obstacle carry the
  prefix \<open>obs_\<close>, since both dataclasses use the same names.
\<close>

type_synonym addr = "string \<times> nat"

record player =
  name :: string
  lane :: int
  target_lane :: int
  score :: real
  blink :: real
  last_heartbeat :: real
  addr :: addr
  pos_x :: real
  pos_y :: real
  player_id :: int
  finished :: bool
  move_progress :: real
  consecutive_collisions :: int
  last_collision_time :: real
  vertical_speed :: real
  target_y :: real

record obstacle =
  obs_lane :: int
  obs_y :: real
  obs_x :: real
  obs_id :: real
  obs_type :: string
  obs_width :: real
  obs_height :: real
  obs_speed :: real
  obs_penalty :: int
  obs_color :: string

text \<open>One entry of the table \<open>OBSTACLE_TYPES\<close>.\<close>

record obstacle_props =
  width :: real
  height :: real
  speed :: real
  penalty :: int
  color :: string
  spawn_weight :: real
  min_cooldown :: real

text \<open>What the server puts on the wire (\<open>sock.sendto\<close>), by destination.\<close>

record player_info =
  info_id :: int
  info_x :: real
  info_y :: real
  info_name :: string
  info_score :: int
  info_finished :: bool
  info_lane :: int
  info_blink :: real
  info_target_lane :: int
  info_move_progress :: real

record obstacle_info =
  oinfo_x :: real
  oinfo_y :: real
  oinfo_lane :: int
  oinfo_id :: real
  oinfo_type :: string
  oinfo_color :: string
  oinfo_width :: real
  oinfo_height :: real

record state_msg =
  msg_seq :: int
  msg_players :: "player_info list"
  msg_obstacles :: "obstacle_info list"
  msg_time_left :: real
  msg_game_running :: bool
  msg_game_progress :: real
  msg_difficulty :: int
  msg_total_players :: nat
  msg_server_time :: real

datatype out_msg =
    JoinAck int "(string \<times> obstacle_props) list" real real
  | HeartbeatAck
  | State state_msg

text \<open>The mutable fields of \<open>GameServer\<close>.\<close>

record server =
  players :: "(addr \<times> player) list"
  obstacles :: "obstacle list"
  game_running :: bool
  start_time :: "real option"
  shutdown_requested :: bool
  last_obstacle_spawn :: real
  next_player_id :: int
  state_sequence :: int
  GAME_DURATION :: real
  game_progress :: real
  difficulty_level :: int
  obstacles_spawned :: int
  obstacle_cooldown :: real
  obstacle_probability :: real
  obstacle_speed_multiplier :: real
  total_obstacles_spawned :: int
  total_collisions :: int
  game_session_count :: int
  outbox :: "(addr \<times> out_msg) list"

subsection \<open>Constants of \<open>GameServer.__init__\<close>\<close>

definition TICK_RATE :: real where "TICK_RATE = 60"
definition BASE_GAME_DURATION :: real where "BASE_GAME_DURATION = 40"
definition MAX_SCORE :: real where "MAX_SCORE = 300"
definition HEARTBEAT_TIMEOUT :: real where "HEARTBEAT_TIMEOUT = 5"
definition SCREEN_H :: real where "SCREEN_H = 700"
definition PLAYER_Y :: real where "PLAYER_Y = 300"
definition LANE_CHANGE_DURATION :: real where "LANE_CHANGE_DURATION = 0.3"
definition VERTICAL_SPEED :: real where "VERTICAL_SPEED = 200"
definition MIN_PLAYER_Y :: real where "MIN_PLAYER_Y = 100"
definition MAX_PLAYER_Y :: real where "MAX_PLAYER_Y = 600"
definition BLINK_DURATION :: real where "BLINK_DURATION = 1.5"
definition COLLISION_COOLDOWN :: real where "COLLISION_COOLDOWN = 2"
definition COLLISION_RESET_TIME :: real where "COLLISION_RESET_TIME = 3"
definition BASE_OBSTACLE_COOLDOWN :: real where "BASE_OBSTACLE_COOLDOWN = 1.5"
definition BASE_OBSTACLE_PROBABILITY :: real where "BASE_OBSTACLE_PROBABILITY = 0.7"
definition MAX_OBSTACLES :: nat where "MAX_OBSTACLES = 8"

text \<open>\<open>POINTS_PER_TICK\<close> is computed once, in the constructor, from the initial duration.\<close>

definition POINTS_PER_TICK :: real where
  "POINTS_PER_TICK = MAX_SCORE / (BASE_GAME_DURATION * TICK_RATE)"

datatype error = IndexError | KeyError | ZeroDivisionError

text \<open>
  \<open>LANE_X = [300, 500, 700]\<close>, read as Python reads a list: a negative index counts
  from the end, an index out of range raises \<open>IndexError\<close>.
\<close>

definition LANE_X :: "real list" where
  "LANE_X = [300, 500, 700]"

definition lane_x :: "int \<Rightarrow> error + real" where
  "lane_x i =
     (if 0 \<le> i \<and> i < 3 then Inr (LANE_X ! nat i)
      else if - 3 \<le> i \<and> i < 0 then Inr (LANE_X ! nat (i + 3))
      else Inl IndexError)"

definition OBSTACLE_TYPES :: "(string \<times> obstacle_props) list" where
  "OBSTACLE_TYPES =
    [(''car'',   \<lparr>width = 80,  height = 120, speed = 140, penalty = 10,
                   color = ''#FF6B6B'', spawn_weight = 0.6, min_cooldown = 1.2\<rparr>),
     (''truck'', \<lparr>width = 100, height = 160, speed = 110, penalty = 20,
                   color = ''#4ECDC4'', spawn_weight = 0.3, min_cooldown = 1.5\<rparr>),
     (''bus'',   \<lparr>width = 90,  height = 180, speed = 100, penalty = 25,
                   color = ''#45B7D1'', spawn_weight = 0.1, min_cooldown = 2.0\<rparr>),
     (''bike'',  \<lparr>width = 60,  height = 80,  speed = 160, penalty = 5,
                   color = ''#96CEB4'', spawn_weight = 0.4, min_cooldown = 0.8\<rparr>),
     (''rock'',  \<lparr>width = 70,  height = 70,  speed = 130, penalty = 15,
                   color = ''#A1887F'', spawn_weight = 0.2, min_cooldown = 1.0\<rparr>)]"

text \<open>The server as the constructor leaves it.\<close>

definition init_server :: server where
  "init_server =
    \<lparr>players = [], obstacles = [], game_running = False, start_time = None,
     shutdown_requested = False, last_obstacle_spawn = 0, next_player_id = 1,
     state_sequence = 0, GAME_DURATION = BASE_GAME_DURATION, game_progress = 0,
     difficulty_level = 1, obstacles_spawned = 0,
     obstacle_cooldown = BASE_OBSTACLE_COOLDOWN,
     obstacle_probability = BASE_OBSTACLE_PROBABILITY,
     obstacle_speed_multiplier = 1, total_obstacles_spawned = 0,
     total_collisions = 0, game_session_count = 0, outbox = []\<rparr>"

subsection \<open>Python helpers\<close>

text \<open>\<open>round(r)\<close> of a float rounds to the nearest integer, a tie to the even one.\<close>

definition py_round :: "real \<Rightarrow> int" where
  "py_round r =
     (let f = \<lfloor>r\<rfloor>; d = r - of_int f
      in if d < 1/2 then f else if 1/2 < d then f + 1 else if even f then f else f + 1)"

text \<open>
  \<open>not self.start_time\<close>: an \<open>Optional[float]\<close> is false when it is \<open>None\<close> and when
  it is \<open>0.0\<close>.
\<close>

definition truthy :: "real option \<Rightarrow> bool" where
  "truthy t = (case t of None \<Rightarrow> False | Some v \<Rightarrow> v \<noteq> 0)"

text \<open>Dictionary operations on the association list.\<close>

definition tracked :: "addr \<Rightarrow> server \<Rightarrow> bool" where
  "tracked a s = (a \<in> fst ` set (players s))"

fun update_at :: "addr \<Rightarrow> (player \<Rightarrow> player) \<Rightarrow> (addr \<times> player) list \<Rightarrow> (addr \<times> player) list" where
  "update_at a f [] = []"
| "update_at a f ((b, p) # ps) = (if a = b then (b, f p) # ps else (b, p) # update_at a f ps)"

definition del_key :: "addr \<Rightarrow> (addr \<times> player) list \<Rightarrow> (addr \<times> player) list" where
  "del_key a ps = filter (\<lambda>(b, p). b \<noteq> a) ps"

subsection \<open>IEEE 754 binary64 arithmetic\<close>

text \<open>
  A finite double is \<open>m \<times> 2\<^sup>e\<close> for integers \<open>m\<close> and \<open>e\<close> with \<open>|m| < 2\<^sup>5\<^sup>3\<close>; it is the pair
  \<open>(m, e)\<close> here. A sum or a product of two doubles is such a pair again, with a
  mantissa that may be longer, and the result of the operation is that pair rounded to
  53 bits, to the nearest double, a tie to the even mantissa. The exponent is not
  bounded: the numbers of the penalty computation stay far from the largest and the
  smallest double.
\<close>

type_synonym double = "int \<times> int"

definition dval :: "double \<Rightarrow> real" where
  "dval d = of_int (fst d) * 2 powr of_int (snd d)"

text \<open>The number of binary digits of a natural number (\<open>int.bit_length\<close>).\<close>

fun bit_length :: "nat \<Rightarrow> nat" where
  "bit_length n = (if n = 0 then 0 else 1 + bit_length (n div 2))"

text \<open>\<open>m / 2\<^sup>k\<close>, rounded to the nearest integer, a tie to the even one.\<close>

definition round_shift :: "int \<Rightarrow> nat \<Rightarrow> int" where
  "round_shift m k =
     (if k = 0 then m
      else
        (let q = m div 2 ^ k; r = m mod 2 ^ k; h = 2 ^ (k - 1)
         in if r < h then q else if h < r then q + 1 else if even q then q else q + 1))"

definition fl_round :: "double \<Rightarrow> double" where
  "fl_round d =
     (let n = bit_length (nat \<bar>fst d\<bar>)
      in if n \<le> 53 then d else (round_shift (fst d) (n - 53), snd d + int (n - 53)))"

text \<open>The conversion of an integer to a float, the product and the sum of two floats.\<close>

definition fl_of_int :: "int \<Rightarrow> double" where
  "fl_of_int i = fl_round (i, 0)"

definition fl_mul :: "double \<Rightarrow> double \<Rightarrow> double" where
  "fl_mul x y = fl_round (fst x * fst y, snd x + snd y)"

definition fl_add :: "double \<Rightarrow> double \<Rightarrow> double" where
  "fl_add x y =
     (let e = min (snd x) (snd y)
      in fl_round (fst x * 2 ^ nat (snd x - e) + fst y * 2 ^ nat (snd y - e), e))"

text \<open>\<open>int(x)\<close> of a float truncates toward zero.\<close>

definition fl_trunc :: "double \<Rightarrow> int" where
  "fl_trunc d =
     (if 0 \<le> snd d then fst d * 2 ^ nat (snd d)
      else if 0 \<le> fst d then fst d div 2 ^ nat (- snd d)
      else - ((- fst d) div 2 ^ nat (- snd d)))"

text \<open>
  The literals \<open>1.0\<close> and \<open>0.3\<close>: the double nearest to three tenths is
  \<open>0x1.3333333333333p-2\<close>.
\<close>

definition fl_1_0 :: double where
  "fl_1_0 = (1, 0)"

definition fl_0_3 :: double where
  "fl_0_3 = (5404319552844595, - 54)"

section \<open>Collision detection and penalties\<close>

definition check_collision :: "player \<Rightarrow> obstacle \<Rightarrow> bool" where
  "check_collision p ob =
     (let player_left = pos_x p - 30;
          player_right = pos_x p + 30;
          player_top = pos_y p - 40;
          player_bottom = pos_y p + 40;
          padding = 5;
          obstacle_left = obs_x ob - obs_width ob / 2 + padding;
          obstacle_right = obs_x ob + obs_width ob / 2 - padding;
          obstacle_top = obs_y ob - obs_height ob / 2 + padding;
          obstacle_bottom = obs_y ob + obs_height ob / 2 - padding
      in player_right > obstacle_left \<and> player_left < obstacle_right \<and>
         player_bottom > obstacle_top \<and> player_top < obstacle_bottom)"

text \<open>
  The body of the inner loop of \<open>update_collisions\<close>, in three parts. The counter of
  consecutive collisions is reset first, for every player the loop visits.
\<close>

definition reset_consecutive :: "real \<Rightarrow> player \<Rightarrow> player" where
  "reset_consecutive current_time p =
     (if current_time - last_collision_time p > COLLISION_RESET_TIME
      then p\<lparr>consecutive_collisions := 0\<rparr> else p)"

definition is_invulnerable :: "real \<Rightarrow> player \<Rightarrow> bool" where
  "is_invulnerable current_time p = (current_time - blink p < BLINK_DURATION)"

definition penalty_multiplier :: "int \<Rightarrow> double" where
  "penalty_multiplier c = fl_add fl_1_0 (fl_mul (fl_of_int c) fl_0_3)"

definition base_penalty :: "player \<Rightarrow> obstacle \<Rightarrow> int" where
  "base_penalty p ob =
     (if consecutive_collisions p > 0
      then fl_trunc (fl_mul (fl_of_int (obs_penalty ob))
                            (penalty_multiplier (consecutive_collisions p)))
      else obs_penalty ob)"

definition apply_penalty :: "real \<Rightarrow> obstacle \<Rightarrow> player \<Rightarrow> player" where
  "apply_penalty current_time ob p =
     p\<lparr>score := max 0 (score p - of_int (base_penalty p ob)),
       blink := current_time,
       last_collision_time := current_time,
       consecutive_collisions := consecutive_collisions p + 1\<rparr>"

text \<open>
  The inner loop, for one obstacle: the players in dictionary order; the flag says
  whether the loop left through \<open>break\<close>, that is, whether the obstacle hit a player.
\<close>

fun collide_players :: "real \<Rightarrow> obstacle \<Rightarrow> (addr \<times> player) list \<Rightarrow> (addr \<times> player) list \<times> bool" where
  "collide_players current_time ob [] = ([], False)"
| "collide_players current_time ob ((a, p) # ps) =
     (let q = reset_consecutive current_time p in
      if is_invulnerable current_time p \<or> finished q then
        (let (ps', hit) = collide_players current_time ob ps in ((a, q) # ps', hit))
      else if check_collision q ob \<and> obs_lane ob = lane q then
        ((a, apply_penalty current_time ob q) # ps, True)
      else
        (let (ps', hit) = collide_players current_time ob ps in ((a, q) # ps', hit)))"

text \<open>
  The outer loop: the obstacles in list order, the players as the earlier obstacles
  left them, the set \<open>obstacles_to_remove\<close> and the number of collisions counted.
\<close>

fun collide_obstacles :: "real \<Rightarrow> obstacle list \<Rightarrow> (addr \<times> player) list \<Rightarrow> real set \<Rightarrow> int
    \<Rightarrow> (addr \<times> player) list \<times> real set \<times> int" where
  "collide_obstacles current_time [] ps rm n = (ps, rm, n)"
| "collide_obstacles current_time (ob # obs) ps rm n =
     (let (ps', hit) = collide_players current_time ob ps in
      if hit then collide_obstacles current_time obs ps' (insert (obs_id ob) rm) (n + 1)
      else collide_obstacles current_time obs ps' rm n)"

definition update_collisions :: "real \<Rightarrow> server \<Rightarrow> server" where
  "update_collisions current_time s =
     (if \<not> truthy (start_time s) then s
      else
        (let (ps', obstacles_to_remove, n) =
               collide_obstacles current_time (obstacles s) (players s) {} (total_collisions s)
         in s\<lparr>players := ps',
              total_collisions := n,
              obstacles := (if obstacles_to_remove \<noteq> {}
                            then filter (\<lambda>ob. obs_id ob \<notin> obstacles_to_remove) (obstacles s)
                            else obstacles s)\<rparr>))"

section \<open>Session manager: the message handlers\<close>

text \<open>
  A decoded datagram. \<open>Join\<close> carries the \<open>name\<close> field when the message has one,
  \<open>Input\<close> the truth values of \<open>left\<close>, \<open>right\<close>, \<open>up\<close> and \<open>down\<close> (a missing flag
  is \<open>0\<close>, which is false), \<open>Other\<close> stands for any other \<open>type\<close> and \<open>Undecodable\<close>
  for bytes that are not a JSON object.
\<close>

datatype in_msg =
    Join "string option"
  | Input bool bool bool bool
  | Heartbeat
  | Leave
  | Other
  | Undecodable

definition join_ack :: "int \<Rightarrow> out_msg" where
  "join_ack i = JoinAck i OBSTACLE_TYPES BLINK_DURATION COLLISION_COOLDOWN"

definition new_player :: "string \<Rightarrow> int \<Rightarrow> real \<Rightarrow> addr \<Rightarrow> int \<Rightarrow> player" where
  "new_player nm start_lane now a i =
     \<lparr>name = nm, lane = start_lane, target_lane = start_lane, score = 0, blink = 0,
      last_heartbeat = now, addr = a, pos_x = LANE_X ! nat start_lane, pos_y = PLAYER_Y,
      player_id = i, finished = False, move_progress = 1.0, consecutive_collisions = 0,
      last_collision_time = 0, vertical_speed = 0, target_y = PLAYER_Y\<rparr>"

definition handle_join :: "string option \<Rightarrow> addr \<Rightarrow> real \<Rightarrow> server \<Rightarrow> server" where
  "handle_join msg_name a now s =
     (let nm = take 20 (case msg_name of None \<Rightarrow> ''Player'' | Some n \<Rightarrow> n) in
      case map_of (players s) a of
        Some p \<Rightarrow>
          s\<lparr>players := update_at a (\<lambda>q. q\<lparr>name := nm, last_heartbeat := now\<rparr>) (players s),
            outbox := outbox s @ [(a, join_ack (player_id p))]\<rparr>
      | None \<Rightarrow>
          (let start_lane = 1; i = next_player_id s in
           s\<lparr>next_player_id := next_player_id s + 1,
             players := players s @ [(a, new_player nm start_lane now a i)],
             outbox := outbox s @ [(a, join_ack i)]\<rparr>))"

text \<open>
  What \<open>handle_input\<close> does to the sender's player, once both guards have passed.
  The handler reads the clock twice: \<open>current_time\<close> for the test of the cooldown,
  \<open>now\<close> for the activity timestamp.
\<close>

definition input_player :: "bool \<Rightarrow> bool \<Rightarrow> bool \<Rightarrow> bool \<Rightarrow> real \<Rightarrow> real \<Rightarrow> bool \<Rightarrow> player \<Rightarrow> player" where
  "input_player left right up down current_time now running p =
     (let p1 = p\<lparr>vertical_speed :=
                   (if up \<and> \<not> down then - VERTICAL_SPEED
                    else if down \<and> \<not> up then VERTICAL_SPEED
                    else 0)\<rparr>;
          p2 = (if move_progress p1 \<ge> 1.0 \<and> running then
                  (let can_change_lane = (current_time - last_collision_time p1 > 0.5);
                       target = (if can_change_lane then
                                   (if left \<and> \<not> right \<and> lane p1 > 0 then lane p1 - 1
                                    else if right \<and> \<not> left \<and> lane p1 < 2 then lane p1 + 1
                                    else lane p1)
                                 else lane p1)
                   in if target \<noteq> lane p1
                      then p1\<lparr>target_lane := target, move_progress := 0\<rparr>
                      else p1)
                else p1)
      in p2\<lparr>last_heartbeat := now\<rparr>)"

definition handle_input :: "bool \<Rightarrow> bool \<Rightarrow> bool \<Rightarrow> bool \<Rightarrow> addr \<Rightarrow> real \<Rightarrow> real \<Rightarrow> server \<Rightarrow> server" where
  "handle_input left right up down a current_time now s =
     (if \<not> tracked a s \<or> \<not> game_running s then s
      else s\<lparr>players :=
               update_at a (input_player left right up down current_time now (game_running s))
                 (players s)\<rparr>)"

definition handle_heartbeat :: "addr \<Rightarrow> real \<Rightarrow> server \<Rightarrow> server" where
  "handle_heartbeat a now s =
     (let s1 = (if tracked a s
                then s\<lparr>players := update_at a (\<lambda>q. q\<lparr>last_heartbeat := now\<rparr>) (players s)\<rparr>
                else s)
      in s1\<lparr>outbox := outbox s1 @ [(a, HeartbeatAck)]\<rparr>)"

definition handle_leave :: "addr \<Rightarrow> server \<Rightarrow> server" where
  "handle_leave a s =
     (if tracked a s then s\<lparr>players := del_key a (players s)\<rparr> else s)"

text \<open>
  The dispatch of a datagram. \<open>handle_join\<close> and \<open>handle_heartbeat\<close> read the clock once
  (\<open>now\<close>); \<open>handle_input\<close> reads it for the cooldown (\<open>current_time\<close>) and again for
  the activity timestamp (\<open>now\<close>).
\<close>

definition handle_message :: "in_msg \<Rightarrow> addr \<Rightarrow> real \<Rightarrow> real \<Rightarrow> server \<Rightarrow> server" where
  "handle_message m a current_time now s =
     (case m of
        Join msg_name \<Rightarrow> handle_join msg_name a now s
      | Input left right up down \<Rightarrow> handle_input left right up down a current_time now s
      | Heartbeat \<Rightarrow> handle_heartbeat a now s
      | Leave \<Rightarrow> handle_leave a s
      | Other \<Rightarrow> s
      | Undecodable \<Rightarrow> s)"

definition check_timeouts :: "real \<Rightarrow> server \<Rightarrow> server" where
  "check_timeouts now s =
     (let timeout_players =
            map fst (filter (\<lambda>(a, p). now - last_heartbeat p > HEARTBEAT_TIMEOUT) (players s))
      in s\<lparr>players := filter (\<lambda>(a, p). a \<notin> set timeout_players) (players s)\<rparr>)"

section \<open>Movement simulator\<close>

definition ease_out_back :: "real \<Rightarrow> real" where
  "ease_out_back x0 =
     (let c1 = 1.70158; c2 = c1 * 1.525
      in 1 + c2 * (x0 - 1) ^ 3 + c1 * (x0 - 1) ^ 2)"

text \<open>
  The body of the loop of \<open>update_player_movements\<close> for one player. Reading \<open>LANE_X\<close>
  at a lane outside the list raises, and the exception leaves the game loop.
\<close>

definition move_lane :: "real \<Rightarrow> real \<Rightarrow> player \<Rightarrow> error + player" where
  "move_lane dt progress_of_game p =
     (if move_progress p < 1.0 then
        (let transition_speed =
               (if progress_of_game > 0.7 then LANE_CHANGE_DURATION * 0.8
                else LANE_CHANGE_DURATION);
             p1 = p\<lparr>move_progress := min 1.0 (move_progress p + dt / transition_speed)\<rparr>
         in case lane_x (lane p1) of
              Inl e \<Rightarrow> Inl e
            | Inr start_x \<Rightarrow>
               (case lane_x (target_lane p1) of
                  Inl e \<Rightarrow> Inl e
                | Inr target_x \<Rightarrow>
                   (let progress = ease_out_back (move_progress p1);
                        p2 = p1\<lparr>pos_x := start_x + (target_x - start_x) * progress\<rparr>
                    in if move_progress p2 \<ge> 1.0 then
                         (let p3 = p2\<lparr>lane := target_lane p2\<rparr>
                          in case lane_x (lane p3) of
                               Inl e \<Rightarrow> Inl e
                             | Inr centre \<Rightarrow> Inr (p3\<lparr>pos_x := centre\<rparr>))
                       else Inr p2)))
      else Inr p)"

definition move_vertical :: "real \<Rightarrow> player \<Rightarrow> player" where
  "move_vertical dt p =
     (if vertical_speed p \<noteq> 0 then
        (let new_y = pos_y p + vertical_speed p * dt
         in p\<lparr>pos_y := max MIN_PLAYER_Y (min MAX_PLAYER_Y new_y)\<rparr>)
      else p)"

definition move_player :: "real \<Rightarrow> real \<Rightarrow> player \<Rightarrow> error + player" where
  "move_player dt progress_of_game p =
     (case move_lane dt progress_of_game p of
        Inl e \<Rightarrow> Inl e
      | Inr q \<Rightarrow> Inr (move_vertical dt q))"

fun move_all :: "real \<Rightarrow> real \<Rightarrow> (addr \<times> player) list \<Rightarrow> error + (addr \<times> player) list" where
  "move_all dt progress_of_game [] = Inr []"
| "move_all dt progress_of_game ((a, p) # ps) =
     (case move_player dt progress_of_game p of
        Inl e \<Rightarrow> Inl e
      | Inr q \<Rightarrow>
         (case move_all dt progress_of_game ps of
            Inl e \<Rightarrow> Inl e
          | Inr qs \<Rightarrow> Inr ((a, q) # qs)))"

definition update_player_movements :: "real \<Rightarrow> server \<Rightarrow> error + server" where
  "update_player_movements dt s =
     (case move_all dt (game_progress s) (players s) of
        Inl e \<Rightarrow> Inl e
      | Inr ps \<Rightarrow> Inr (s\<lparr>players := ps\<rparr>))"

section \<open>Scoring engine and the end of a round\<close>

definition score_player :: "real \<Rightarrow> real \<Rightarrow> player \<Rightarrow> player" where
  "score_player now progress_of_game p =
     (if score p < MAX_SCORE \<and> \<not> finished p then
        (let base_points = POINTS_PER_TICK;
             collision_modifier = max 0.5 (1.0 - of_int (consecutive_collisions p) * 0.1);
             difficulty_bonus = 1.0 + progress_of_game * 0.3;
             total_points = base_points * collision_modifier * difficulty_bonus;
             p1 = p\<lparr>score := min (score p + total_points) MAX_SCORE\<rparr>
         in if score p1 \<ge> MAX_SCORE \<and> \<not> finished p1
            then p1\<lparr>finished := True, blink := now\<rparr>
            else p1)
      else p)"

text \<open>
  \<open>update_scores\<close> reads the clock for each player that finishes: \<open>clock a\<close> is the
  reading for the player of address \<open>a\<close>.
\<close>

definition update_scores :: "(addr \<Rightarrow> real) \<Rightarrow> server \<Rightarrow> server" where
  "update_scores clock s =
     s\<lparr>players := map (\<lambda>(a, p). (a, score_player (clock a) (game_progress s) p)) (players s)\<rparr>"

definition check_game_end :: "real \<Rightarrow> server \<Rightarrow> bool" where
  "check_game_end current_time s =
     (case start_time s of
        None \<Rightarrow> False
      | Some st \<Rightarrow>
         if st = 0 then False
         else
           (let elapsed = current_time - st in
            if elapsed \<ge> GAME_DURATION s then True
            else
              (let active_players = filter (\<lambda>(a, p). \<not> finished p) (players s)
               in if active_players = [] \<and> players s \<noteq> [] then True else False)))"

definition reset_player :: "real \<Rightarrow> player \<Rightarrow> player" where
  "reset_player now p =
     p\<lparr>score := 0, lane := 1, target_lane := 1, pos_x := LANE_X ! 1, pos_y := PLAYER_Y,
       blink := 0, finished := False, move_progress := 1.0, consecutive_collisions := 0,
       last_collision_time := 0, last_heartbeat := now, vertical_speed := 0,
       target_y := PLAYER_Y\<rparr>"

text \<open>
  \<open>reset_game\<close> reads the clock for the activity timestamp of each player (\<open>clock a\<close>
  for the player of address \<open>a\<close>), then for \<open>last_obstacle_spawn\<close> and for
  \<open>start_time\<close>.
\<close>

definition reset_game :: "(addr \<Rightarrow> real) \<Rightarrow> real \<Rightarrow> real \<Rightarrow> server \<Rightarrow> server" where
  "reset_game clock spawn_time now s =
     s\<lparr>players := map (\<lambda>(a, p). (a, reset_player (clock a) p)) (players s),
       obstacles := [],
       obstacles_spawned := 0,
       last_obstacle_spawn := spawn_time,
       start_time := Some now,
       game_progress := 0,
       state_sequence := 0,
       difficulty_level := 1\<rparr>"

section \<open>Obstacle spawner and difficulty controller\<close>

definition calculate_game_progress :: "real \<Rightarrow> server \<Rightarrow> error + real" where
  "calculate_game_progress current_time s =
     (case start_time s of
        None \<Rightarrow> Inr 0
      | Some st \<Rightarrow>
         if st = 0 then Inr 0
         else
           (let elapsed = current_time - st in
            if GAME_DURATION s = 0 then Inl ZeroDivisionError
            else Inr (min 1.0 (elapsed / GAME_DURATION s))))"

definition update_difficulty :: "server \<Rightarrow> error + server" where
  "update_difficulty s =
     (let progress_factor = 1.0 + game_progress s * 1.5;
          player_count = length (players s);
          player_factor = max 0.7 (1.3 - of_nat player_count * 0.15);
          performance_factor =
            (if list_ex (\<lambda>(a, p). score p > MAX_SCORE * 0.7) (players s) then 1.2 else 1.0);
          level = progress_factor * player_factor * performance_factor
      in if level = 0 then Inl ZeroDivisionError
         else Inr (s\<lparr>obstacle_cooldown := max 0.5 (BASE_OBSTACLE_COOLDOWN / level),
                    obstacle_probability := min 0.95 (BASE_OBSTACLE_PROBABILITY * level),
                    obstacle_speed_multiplier := 1.0 + game_progress s * 0.8,
                    GAME_DURATION := BASE_GAME_DURATION * (1.0 + (level - 1.0) * 0.3)\<rparr>))"

text \<open>
  What the random generator returns during one call of \<open>update_obstacles\<close>:
  \<open>random.random()\<close>, \<open>random.randint(0, 2)\<close> and the type \<open>random.choices\<close> picks.
  Every weight \<open>get_obstacle_weights\<close> computes is at least \<open>0.05\<close>, so each type of
  the table can be picked; the weights themselves are not modelled. A draw that the
  generator cannot return is answered as Python answers the lookup it feeds.
\<close>

record spawn_draw =
  draw_random :: real
  draw_lane :: int
  draw_type :: string

definition advance_obstacle :: "real \<Rightarrow> server \<Rightarrow> obstacle \<Rightarrow> obstacle" where
  "advance_obstacle dt s ob =
     (let type_speed = obs_speed ob;
          speed_multiplier =
            (if game_progress s > 0.8 then obstacle_speed_multiplier s * 1.2
             else obstacle_speed_multiplier s)
      in ob\<lparr>obs_y := obs_y ob + (type_speed * speed_multiplier) * dt\<rparr>)"

definition spawn_obstacle :: "real \<Rightarrow> spawn_draw \<Rightarrow> server \<Rightarrow> error + server" where
  "spawn_obstacle current_time d s =
     (case map_of OBSTACLE_TYPES (draw_type d) of
        None \<Rightarrow> Inl KeyError
      | Some props \<Rightarrow>
         (case lane_x (draw_lane d) of
            Inl e \<Rightarrow> Inl e
          | Inr obstacle_x \<Rightarrow>
             Inr (s\<lparr>obstacles := obstacles s @
                       [\<lparr>obs_lane = draw_lane d, obs_y = - height props, obs_x = obstacle_x,
                         obs_id = current_time, obs_type = draw_type d,
                         obs_width = width props, obs_height = height props,
                         obs_speed = speed props, obs_penalty = penalty props,
                         obs_color = color props\<rparr>],
                   obstacles_spawned := obstacles_spawned s + 1,
                   total_obstacles_spawned := total_obstacles_spawned s + 1,
                   last_obstacle_spawn := current_time\<rparr>)))"

definition update_obstacles :: "real \<Rightarrow> real \<Rightarrow> spawn_draw \<Rightarrow> server \<Rightarrow> error + server" where
  "update_obstacles current_time dt d s =
     (case calculate_game_progress current_time s of
        Inl e \<Rightarrow> Inl e
      | Inr g \<Rightarrow>
         (case update_difficulty (s\<lparr>game_progress := g\<rparr>) of
            Inl e \<Rightarrow> Inl e
          | Inr s1 \<Rightarrow>
             (let new_obstacles =
                    filter (\<lambda>ob. obs_y ob < SCREEN_H + obs_height ob + 100)
                      (map (advance_obstacle dt s1) (obstacles s1));
                  s2 = s1\<lparr>obstacles := new_obstacles\<rparr>
              in if game_running s2 then
                   (let time_since_last_spawn = current_time - last_obstacle_spawn s2;
                        can_spawn = (time_since_last_spawn \<ge> obstacle_cooldown s2 \<and>
                                     length (obstacles s2) < MAX_OBSTACLES \<and>
                                     draw_random d < obstacle_probability s2)
                    in if can_spawn then spawn_obstacle current_time d s2 else Inr s2)
                 else Inr s2)))"

section \<open>Broadcast and the game loop\<close>

definition player_entry :: "player \<Rightarrow> player_info" where
  "player_entry p =
     \<lparr>info_id = player_id p, info_x = pos_x p, info_y = pos_y p, info_name = name p,
      info_score = py_round (score p), info_finished = finished p, info_lane = lane p,
      info_blink = blink p, info_target_lane = target_lane p,
      info_move_progress = move_progress p\<rparr>"

definition obstacle_entry :: "obstacle \<Rightarrow> obstacle_info" where
  "obstacle_entry ob =
     \<lparr>oinfo_x = obs_x ob, oinfo_y = obs_y ob, oinfo_lane = obs_lane ob, oinfo_id = obs_id ob,
      oinfo_type = obs_type ob, oinfo_color = obs_color ob, oinfo_width = obs_width ob,
      oinfo_height = obs_height ob\<rparr>"

text \<open>
  \<open>broadcast_state\<close>: \<open>failed\<close> lists the addresses for which \<open>sendto\<close> raises; the
  outbox records every datagram handed to \<open>sendto\<close>. The two sections the source runs
  under the lock, one after the other, are one step here.
\<close>

definition broadcast_state :: "real \<Rightarrow> addr list \<Rightarrow> server \<Rightarrow> server" where
  "broadcast_state now failed s =
     (let elapsed = (if truthy (start_time s) then now - the (start_time s) else 0);
          left = max 0 (GAME_DURATION s - elapsed);
          player_list = map (\<lambda>(a, p). player_entry p) (players s);
          obstacle_list = map obstacle_entry (obstacles s);
          s1 = s\<lparr>state_sequence := state_sequence s + 1\<rparr>;
          m = \<lparr>msg_seq = state_sequence s1, msg_players = player_list,
               msg_obstacles = obstacle_list, msg_time_left = left,
               msg_game_running = game_running s1, msg_game_progress = game_progress s1,
               msg_difficulty = difficulty_level s1, msg_total_players = length (players s1),
               msg_server_time = now\<rparr>;
          recipients = map fst (players s1);
          disconnected = filter (\<lambda>a. a \<in> set failed) recipients
      in s1\<lparr>outbox := outbox s1 @ map (\<lambda>a. (a, State m)) recipients,
            players := filter (\<lambda>(a, p). a \<notin> set disconnected) (players s1)\<rparr>)"

definition end_game :: "real \<Rightarrow> addr list \<Rightarrow> server \<Rightarrow> server" where
  "end_game now failed s = broadcast_state now failed (s\<lparr>game_running := False\<rparr>)"

definition signal_handler :: "server \<Rightarrow> server" where
  "signal_handler s = s\<lparr>shutdown_requested := True, game_running := False\<rparr>"

text \<open>
  The start of a session in \<open>run\<close> and \<open>game_loop\<close>: \<open>reset_game\<close>, then
  \<open>game_running = True\<close>, then the session counter.
\<close>

definition start_session :: "(addr \<Rightarrow> real) \<Rightarrow> real \<Rightarrow> real \<Rightarrow> server \<Rightarrow> server" where
  "start_session clock spawn_time now s =
     (let s1 = reset_game clock spawn_time now s
      in s1\<lparr>game_running := True, game_session_count := game_session_count s1 + 1\<rparr>)"

text \<open>
  The network thread and the game loop share the state under one lock, so a run of the
  server is a sequence of the steps below, each one a section the source runs under
  the lock (or on the game loop's own data): the handlers of the network thread
  interleave freely with the stages of a tick. A step that raises out of the game
  loop ends the run.
\<close>

datatype event =
    Message in_msg addr real real
  | Movements real
  | Obstacles real real spawn_draw
  | Collisions real
  | Scores "addr \<Rightarrow> real"
  | Broadcast real "addr list"
  | Timeouts real
  | EndGame real "addr list"
  | Signal
  | StartSession "addr \<Rightarrow> real" real real

fun step :: "event \<Rightarrow> server \<Rightarrow> error + server" where
  "step (Message m a current_time now) s = Inr (handle_message m a current_time now s)"
| "step (Movements dt) s = update_player_movements dt s"
| "step (Obstacles current_time dt d) s = update_obstacles current_time dt d s"
| "step (Collisions current_time) s = Inr (update_collisions current_time s)"
| "step (Scores clock) s = Inr (update_scores clock s)"
| "step (Broadcast now failed) s = Inr (broadcast_state now failed s)"
| "step (Timeouts now) s = Inr (check_timeouts now s)"
| "step (EndGame now failed) s = Inr (end_game now failed s)"
| "step Signal s = Inr (signal_handler s)"
| "step (StartSession clock spawn_time now) s = Inr (start_session clock spawn_time now s)"

fun run :: "event list \<Rightarrow> server \<Rightarrow> error + server" where
  "run [] s = Inr s"
| "run (e # es) s = (case step e s of Inl err \<Rightarrow> Inl err | Inr s' \<Rightarrow> run es s')"

section \<open>The client's receive path (client\_test\_9.py)\<close>

text \<open>
  A datagram as the client decodes it: each field of the JSON object is present or
  absent, as \<open>dict.get\<close> and \<open>dict[...]\<close> see it. The client's table of obstacle
  types serves the drawing code only and is left out.
\<close>

record json_player =
  jp_id :: "int option"
  jp_x :: "real option"
  jp_y :: "real option"
  jp_name :: "string option"
  jp_score :: "int option"
  jp_finished :: "bool option"

record json_obstacle =
  jo_x :: "real option"
  jo_y :: "real option"
  jo_type :: "string option"
  jo_lane :: "int option"
  jo_id :: "real option"
  jo_color :: "string option"

record json_state =
  js_seq :: "int option"
  js_game_running :: "bool option"
  js_time_left :: "real option"
  js_players :: "json_player list option"
  js_obstacles :: "json_obstacle list option"

datatype server_msg =
    JoinAckMsg "int option"
  | StateMsg json_state
  | OtherMsg
  | BadJson

record target =
  tgt_x :: real
  tgt_y :: real
  tgt_name :: string

record score_entry =
  se_name :: string
  se_score :: int
  se_finished :: bool

record client_obstacle =
  co_x :: real
  co_y :: real
  co_type :: string
  co_lane :: int
  co_id :: real
  co_color :: "string option"

record client =
  my_player_id :: "int option"
  join_confirmed :: bool
  last_seq :: int
  client_game_running :: bool
  game_time_left :: real
  targets :: "int \<rightharpoonup> target"
  interp :: "int \<rightharpoonup> real \<times> real"
  player_scores :: "int \<rightharpoonup> score_entry"
  current_obstacles :: "client_obstacle list"

definition init_client :: client where
  "init_client =
     \<lparr>my_player_id = None, join_confirmed = False, last_seq = - 1,
      client_game_running = False, game_time_left = 0, targets = Map.empty,
      interp = Map.empty, player_scores = Map.empty, current_obstacles = []\<rparr>"

text \<open>The decimal digits of an integer, for the default name \<open>f"Player{pid}"\<close>.\<close>

fun digits10 :: "nat \<Rightarrow> string" where
  "digits10 n =
     (if n < 10 then [char_of (48 + n)]
      else digits10 (n div 10) @ [char_of (48 + n mod 10)])"

definition str_int :: "int \<Rightarrow> string" where
  "str_int i = (if i < 0 then CHR ''-'' # digits10 (nat (- i)) else digits10 (nat i))"

text \<open>
  The loop over \<open>p.get("players", [])\<close>. An entry without \<open>id\<close>, \<open>x\<close> or \<open>y\<close> raises
  \<open>KeyError\<close>, which ends the handling of the datagram; what the loop stored before
  stays. The flag is false when that happened.
\<close>

fun update_players :: "json_player list \<Rightarrow> client \<Rightarrow> client \<times> bool" where
  "update_players [] c = (c, True)"
| "update_players (info # infos) c =
     (case jp_id info of
        None \<Rightarrow> (c, False)
      | Some pid \<Rightarrow>
         (case jp_x info of
            None \<Rightarrow> (c, False)
          | Some x0 \<Rightarrow>
             (case jp_y info of
                None \<Rightarrow> (c, False)
              | Some y0 \<Rightarrow>
                 (let nm = (case jp_name info of None \<Rightarrow> ''Player'' @ str_int pid | Some n \<Rightarrow> n);
                      c1 = c\<lparr>targets := (targets c)(pid \<mapsto> \<lparr>tgt_x = x0, tgt_y = y0, tgt_name = nm\<rparr>)\<rparr>;
                      c2 = (if interp c1 pid = None
                            then c1\<lparr>interp := (interp c1)(pid \<mapsto> (x0, y0))\<rparr> else c1);
                      c3 = c2\<lparr>player_scores := (player_scores c2)(pid \<mapsto>
                                \<lparr>se_name = nm,
                                 se_score = (case jp_score info of None \<Rightarrow> 0 | Some v \<Rightarrow> v),
                                 se_finished = (case jp_finished info of None \<Rightarrow> False | Some b \<Rightarrow> b)\<rparr>)\<rparr>
                  in update_players infos c3))))"

definition obstacle_data :: "json_obstacle \<Rightarrow> client_obstacle" where
  "obstacle_data ob =
     \<lparr>co_x = (case jo_x ob of None \<Rightarrow> 0 | Some v \<Rightarrow> v),
      co_y = (case jo_y ob of None \<Rightarrow> 0 | Some v \<Rightarrow> v),
      co_type = (case jo_type ob of None \<Rightarrow> ''car'' | Some v \<Rightarrow> v),
      co_lane = (case jo_lane ob of None \<Rightarrow> 1 | Some v \<Rightarrow> v),
      co_id = (case jo_id ob of None \<Rightarrow> 0 | Some v \<Rightarrow> v),
      co_color = jo_color ob\<rparr>"

text \<open>The branch of the receive loop for a datagram of type \<open>state\<close>.\<close>

definition handle_state :: "json_state \<Rightarrow> client \<Rightarrow> client" where
  "handle_state p c =
     (if (case js_seq p of None \<Rightarrow> False | Some sq \<Rightarrow> sq \<le> last_seq c) then c
      else
        (let c1 = (case js_seq p of None \<Rightarrow> c | Some sq \<Rightarrow> c\<lparr>last_seq := sq\<rparr>);
             c2 = c1\<lparr>client_game_running :=
                        (case js_game_running p of None \<Rightarrow> False | Some b \<Rightarrow> b),
                     game_time_left := (case js_time_left p of None \<Rightarrow> 0 | Some t \<Rightarrow> t)\<rparr>;
             (c3, ok) = update_players (case js_players p of None \<Rightarrow> [] | Some l \<Rightarrow> l) c2
         in if ok
            then c3\<lparr>current_obstacles :=
                      map obstacle_data (case js_obstacles p of None \<Rightarrow> [] | Some l \<Rightarrow> l)\<rparr>
            else c3))"

definition client_receive :: "server_msg \<Rightarrow> client \<Rightarrow> client" where
  "client_receive m c =
     (case m of
        JoinAckMsg received_id \<Rightarrow>
          (case received_id of
             None \<Rightarrow> c
           | Some i \<Rightarrow> c\<lparr>my_player_id := Some i, join_confirmed := True\<rparr>)
      | StateMsg p \<Rightarrow> handle_state p c
      | OtherMsg \<Rightarrow> c
      | BadJson \<Rightarrow> c)"

text \<open>The datagrams of a session, handled in the order the socket delivers them.\<close>

fun client_run :: "server_msg list \<Rightarrow> client \<Rightarrow> client" where
  "client_run [] c = c"
| "client_run (m # ms) c = client_run ms (client_receive m c)"

section \<open>Notions used in the statements\<close>

text \<open>
  The condition under which the inner loop of \<open>update_collisions\<close> penalises a player
  for an obstacle: not invulnerable, not finished, hitboxes overlapping, same lane.
\<close>

definition hit_condition :: "real \<Rightarrow> obstacle \<Rightarrow> player \<Rightarrow> bool" where
  "hit_condition current_time ob p =
     (\<not> is_invulnerable current_time p \<and> \<not> finished p \<and>
      check_collision p ob \<and> obs_lane ob = lane p)"

text \<open>
  The outer loop of \<open>update_collisions\<close>, obstacle by obstacle: the players as the first
  \<open>k\<close> obstacles of the list have left them, and the positions in the list of the
  obstacles that hit a player, each one tested against the players as the obstacles
  before it have left them.
\<close>

definition players_before :: "real \<Rightarrow> obstacle list \<Rightarrow> (addr \<times> player) list \<Rightarrow> nat
    \<Rightarrow> (addr \<times> player) list" where
  "players_before current_time obs ps k =
     fold (\<lambda>ob qs. fst (collide_players current_time ob qs)) (take k obs) ps"

definition hit_indices :: "real \<Rightarrow> obstacle list \<Rightarrow> (addr \<times> player) list \<Rightarrow> nat list" where
  "hit_indices current_time obs ps =
     filter (\<lambda>k. snd (collide_players current_time (obs ! k) (players_before current_time obs ps k)))
       [0..<length obs]"

text \<open>
  An entry of the player dictionary before and after a pass over the obstacles \<open>obs\<close>:
  the key stays, and a player that passes the test of the loop for none of the
  obstacles is as before, up to the lazy reset of the collision counter.
\<close>

definition unharmed :: "real \<Rightarrow> obstacle list \<Rightarrow> addr \<times> player \<Rightarrow> addr \<times> player \<Rightarrow> bool" where
  "unharmed current_time obs x y =
     (fst y = fst x \<and>
      ((\<forall>ob \<in> set obs. \<not> hit_condition current_time ob (snd x)) \<longrightarrow>
         snd y = snd x \<or> snd y = reset_consecutive current_time (snd x)))"


text \<open>
  A concrete situation: one player in the middle lane, hit once two seconds ago, and a
  bike (base penalty 5) on top of the player in the same lane.
\<close>

definition demo_addr :: addr where
  "demo_addr = (''10.0.0.1'', 5000)"

definition demo_player :: player where
  "demo_player = (new_player ''A'' 1 0 demo_addr 1)
     \<lparr>score := 100, blink := 8, last_collision_time := 8, consecutive_collisions := 1\<rparr>"

definition demo_bike :: obstacle where
  "demo_bike = \<lparr>obs_lane = 1, obs_y = 300, obs_x = 500, obs_id = 7, obs_type = ''bike'',
              obs_width = 60, obs_height = 80, obs_speed = 160, obs_penalty = 5,
              obs_color = ''#96CEB4''\<rparr>"

definition demo_server :: server where
  "demo_server = init_server\<lparr>players := [(demo_addr, demo_player)], obstacles := [demo_bike],
       game_running := True, start_time := Some 1\<rparr>"

text \<open>
  A second situation, ten seconds after time 0: four players in dictionary order. \<open>A\<close>
  has finished. \<open>B\<close> and \<open>C\<close> stand in the middle lane, hit two seconds ago, \<open>B\<close> once
  and \<open>C\<close> twelve times in a row. \<open>D\<close> is on the way from the middle lane to the right
  one. A bike and a bus lie on \<open>B\<close> and \<open>C\<close>, a truck in the right lane overlaps \<open>D\<close>.
\<close>

definition demo_bus :: obstacle where
  "demo_bus = \<lparr>obs_lane = 1, obs_y = 300, obs_x = 500, obs_id = 8, obs_type = ''bus'',
              obs_width = 90, obs_height = 180, obs_speed = 100, obs_penalty = 25,
              obs_color = ''#45B7D1''\<rparr>"

definition demo_truck :: obstacle where
  "demo_truck = \<lparr>obs_lane = 2, obs_y = 300, obs_x = 700, obs_id = 9, obs_type = ''truck'',
              obs_width = 100, obs_height = 160, obs_speed = 110, obs_penalty = 20,
              obs_color = ''#4ECDC4''\<rparr>"

definition crowd_A :: player where
  "crowd_A = (new_player ''A'' 1 0 (''10.0.0.1'', 5001) 1)\<lparr>score := 300, finished := True\<rparr>"

definition crowd_B :: player where
  "crowd_B = (new_player ''B'' 1 0 (''10.0.0.2'', 5002) 2)
     \<lparr>score := 100, blink := 8, last_collision_time := 8, consecutive_collisions := 1\<rparr>"

definition crowd_C :: player where
  "crowd_C = (new_player ''C'' 1 0 (''10.0.0.3'', 5003) 3)
     \<lparr>score := 200, blink := 8, last_collision_time := 8, consecutive_collisions := 12\<rparr>"

definition crowd_D :: player where
  "crowd_D = (new_player ''D'' 1 0 (''10.0.0.4'', 5004) 4)
     \<lparr>score := 50, target_lane := 2, pos_x := 650, move_progress := 0.6\<rparr>"

definition crowd_server :: server where
  "crowd_server = init_server
     \<lparr>players := [((''10.0.0.1'', 5001), crowd_A), ((''10.0.0.2'', 5002), crowd_B),
                  ((''10.0.0.3'', 5003), crowd_C), ((''10.0.0.4'', 5004), crowd_D)],
      obstacles := [demo_bike, demo_bus, demo_truck],
      game_running := True, start_time := Some 1, next_player_id := 5\<rparr>"

text \<open>
  The sequence numbers of the state messages of a list of datagrams, in order.
\<close>

definition state_seqs :: "server_msg list \<Rightarrow> int list" where
  "state_seqs ms =
     concat (map (\<lambda>m. case m of
                         StateMsg p \<Rightarrow> (case js_seq p of Some n \<Rightarrow> [n] | None \<Rightarrow> [])
                       | _ \<Rightarrow> []) ms)"

text \<open>
  A state message as the server sends it: sequence number \<open>n\<close>, one player with id 1
  at \<open>(x0, 300)\<close>, no obstacle.
\<close>

definition demo_state :: "int \<Rightarrow> real \<Rightarrow> json_state" where
  "demo_state n x0 =
     \<lparr>js_seq = Some n, js_game_running = Some True, js_time_left = Some 30,
      js_players = Some [\<lparr>jp_id = Some 1, jp_x = Some x0, jp_y = Some 300, jp_name = Some ''A'',
                          jp_score = Some 12, jp_finished = Some False\<rparr>],
      js_obstacles = Some []\<rparr>"

text \<open>
  The players \<open>B\<close>, \<open>C\<close> and \<open>D\<close> on the move: \<open>B\<close> drives up, five pixels from the upper
  bound, \<open>C\<close> drives down, \<open>D\<close> is at six tenths of the way to the right lane.
\<close>

definition crowd_moving :: server where
  "crowd_moving = crowd_server
     \<lparr>players := [((''10.0.0.2'', 5002), crowd_B\<lparr>vertical_speed := - 200, pos_y := 105\<rparr>),
                  ((''10.0.0.3'', 5003), crowd_C\<lparr>vertical_speed := 200\<rparr>),
                  ((''10.0.0.4'', 5004), crowd_D)]\<rparr>"

section \<open>Verified properties\<close>

subsection \<open>The end of a round\<close>

lemma filter_not_finished_Nil:
  "(filter (\<lambda>(a, p). \<not> finished p) ps = []) = list_all (\<lambda>(a, p). finished p) ps"
  by (induction ps) auto

text \<open>
  Claim C9, as the spec states it: the round-end check is true exactly when the
  elapsed time has reached the duration or every joined player has finished. With no
  player joined every joined player has finished, and the check still answers false:
  ten seconds into a round of forty, with an empty dictionary.
\<close>

theorem check_game_end_empty_counterexample:
  "\<not> (check_game_end 110 (init_server\<lparr>start_time := Some 100\<rparr>) =
        (110 - 100 \<ge> GAME_DURATION (init_server\<lparr>start_time := Some 100\<rparr>) \<or>
         (\<forall>(a, p) \<in> set (players (init_server\<lparr>start_time := Some 100\<rparr>)). finished p)))"
  by (simp add: check_game_end_def init_server_def BASE_GAME_DURATION_def)

text \<open>
  Claim C9, amended: the check is true exactly when the round has a start time (one
  that is not \<open>0.0\<close>) and either the elapsed time has reached \<open>GAME_DURATION\<close>, or at
  least one player is joined and every joined player has finished.
\<close>

theorem check_game_end_iff:
  "check_game_end current_time s =
     (\<exists>st. start_time s = Some st \<and> st \<noteq> 0 \<and>
        (current_time - st \<ge> GAME_DURATION s \<or>
         (players s \<noteq> [] \<and> list_all (\<lambda>(a, p). finished p) (players s))))"
  by (auto simp: check_game_end_def Let_def filter_not_finished_Nil split: option.splits)

subsection \<open>Collisions\<close>

lemma reset_consecutive_fields [simp]:
  "finished (reset_consecutive t p) = finished p"
  "lane (reset_consecutive t p) = lane p"
  "score (reset_consecutive t p) = score p"
  "blink (reset_consecutive t p) = blink p"
  "last_collision_time (reset_consecutive t p) = last_collision_time p"
  "player_id (reset_consecutive t p) = player_id p"
  "target_lane (reset_consecutive t p) = target_lane p"
  "move_progress (reset_consecutive t p) = move_progress p"
  "pos_x (reset_consecutive t p) = pos_x p"
  "pos_y (reset_consecutive t p) = pos_y p"
  by (simp_all add: reset_consecutive_def)

lemma reset_consecutive_idem [simp]:
  "reset_consecutive t (reset_consecutive t p) = reset_consecutive t p"
  by (simp add: reset_consecutive_def)

lemma check_collision_reset [simp]:
  "check_collision (reset_consecutive t p) ob = check_collision p ob"
  by (simp add: check_collision_def)

lemma hit_condition_reset [simp]:
  "hit_condition t ob (reset_consecutive t' p) = hit_condition t ob p"
  by (simp add: hit_condition_def is_invulnerable_def)

lemma collide_players_step:
  "collide_players t ob ((a, p) # ps) =
     (if hit_condition t ob p
      then ((a, apply_penalty t ob (reset_consecutive t p)) # ps, True)
      else (case collide_players t ob ps of
              (ps', hit) \<Rightarrow> ((a, reset_consecutive t p) # ps', hit)))"
  by (auto simp: hit_condition_def Let_def)

lemma collide_players_none:
  "\<forall>(b, q) \<in> set ps. \<not> hit_condition t ob q \<Longrightarrow>
   collide_players t ob ps = (map (\<lambda>(b, q). (b, reset_consecutive t q)) ps, False)"
  by (induction ps) (auto simp: collide_players_step simp del: collide_players.simps(2))

lemma collide_players_first:
  "\<forall>(b, q) \<in> set pre. \<not> hit_condition t ob q \<Longrightarrow> hit_condition t ob p \<Longrightarrow>
   collide_players t ob (pre @ (a, p) # post) =
     (map (\<lambda>(b, q). (b, reset_consecutive t q)) pre @
      (a, apply_penalty t ob (reset_consecutive t p)) # post, True)"
  by (induction pre) (auto simp: collide_players_step simp del: collide_players.simps(2))

lemma collide_players_hit_iff:
  "snd (collide_players t ob ps) = list_ex (\<lambda>(b, q). hit_condition t ob q) ps"
proof (induction ps)
  case Nil
  show ?case by simp
next
  case (Cons bp ps)
  obtain b p where bp: "bp = (b, p)" by (cases bp)
  obtain ps' hit where cp: "collide_players t ob ps = (ps', hit)"
    by (cases "collide_players t ob ps")
  show ?case
    using Cons.IH cp unfolding bp
    by (simp add: collide_players_step del: collide_players.simps(2))
qed

lemma apply_penalty_reset:
  "apply_penalty t ob (reset_consecutive t p) =
     (let c = (if t - last_collision_time p > COLLISION_RESET_TIME then 0
               else consecutive_collisions p);
          pen = (if c > 0
                 then fl_trunc (fl_mul (fl_of_int (obs_penalty ob))
                                  (fl_add fl_1_0 (fl_mul (fl_of_int c) fl_0_3)))
                 else obs_penalty ob)
      in p\<lparr>score := max 0 (score p - of_int pen), blink := t, last_collision_time := t,
           consecutive_collisions := c + 1\<rparr>)"
  by (simp add: apply_penalty_def reset_consecutive_def base_penalty_def penalty_multiplier_def
      Let_def)

lemma check_collision_centres:
  "check_collision p ob =
     (\<bar>pos_x p - obs_x ob\<bar> < 30 + (obs_width ob / 2 - 5) \<and>
      \<bar>pos_y p - obs_y ob\<bar> < 40 + (obs_height ob / 2 - 5))"
  by (auto simp: check_collision_def Let_def abs_less_iff)

lemma players_before_Cons:
  "players_before t (ob # obs) ps (Suc k) =
     players_before t obs (fst (collide_players t ob ps)) k"
  by (simp add: players_before_def)

lemma players_before_0 [simp]: "players_before t obs ps 0 = ps"
  by (simp add: players_before_def)

lemma hit_indices_Cons:
  "hit_indices t (ob # obs) ps =
     (if snd (collide_players t ob ps) then [0] else []) @
     map Suc (hit_indices t obs (fst (collide_players t ob ps)))"
proof -
  have u: "[0..<length (ob # obs)] = 0 # map Suc [0..<length obs]"
    by (simp add: upt_conv_Cons map_Suc_upt del: upt_Suc)
  show ?thesis
    unfolding hit_indices_def u
    by (simp add: filter_map comp_def players_before_Cons)
qed

lemma collide_obstacles_general:
  "collide_obstacles t obs ps rm n =
     (players_before t obs ps (length obs),
      rm \<union> (\<lambda>k. obs_id (obs ! k)) ` set (hit_indices t obs ps),
      n + int (length (hit_indices t obs ps)))"
proof (induction obs arbitrary: ps rm n)
  case Nil
  show ?case by (simp add: hit_indices_def)
next
  case (Cons ob obs)
  obtain ps' hit where cp: "collide_players t ob ps = (ps', hit)"
    by (cases "collide_players t ob ps")
  have im: "(\<lambda>k. obs_id ((ob # obs) ! k)) ` set (map Suc (hit_indices t obs ps')) =
            (\<lambda>k. obs_id (obs ! k)) ` set (hit_indices t obs ps')"
    by (simp add: image_image)
  show ?case
  proof (cases hit)
    case True
    have "insert (obs_id ob) rm \<union> (\<lambda>k. obs_id (obs ! k)) ` set (hit_indices t obs ps') =
          rm \<union> insert (obs_id ob) ((\<lambda>k. obs_id (obs ! k)) ` set (hit_indices t obs ps'))"
      by blast
    with True cp im show ?thesis
      by (simp add: Cons.IH hit_indices_Cons players_before_Cons image_image)
  next
    case False
    with cp im show ?thesis
      by (simp add: Cons.IH hit_indices_Cons players_before_Cons image_image)
  qed
qed

lemma update_collisions_general:
  assumes "truthy (start_time s)"
  shows "update_collisions t s =
     s\<lparr>players := players_before t (obstacles s) (players s) (length (obstacles s)),
       total_collisions :=
         total_collisions s + int (length (hit_indices t (obstacles s) (players s))),
       obstacles :=
         filter (\<lambda>ob. obs_id ob \<notin>
                   (\<lambda>k. obs_id (obstacles s ! k)) ` set (hit_indices t (obstacles s) (players s)))
           (obstacles s)\<rparr>"
  using assms by (simp add: update_collisions_def collide_obstacles_general)

lemma update_collisions_idle:
  "\<not> truthy (start_time s) \<Longrightarrow> update_collisions t s = s"
  by (simp add: update_collisions_def)

lemma unharmed_refl: "list_all2 (unharmed t obs) ps ps"
  by (rule list_all2_refl) (simp add: unharmed_def)

lemma unharmed_step:
  "list_all2 (unharmed t [ob]) ps qs \<Longrightarrow> list_all2 (unharmed t obs) qs rs \<Longrightarrow>
   list_all2 (unharmed t (ob # obs)) ps rs"
proof -
  assume a: "list_all2 (unharmed t [ob]) ps qs" and b: "list_all2 (unharmed t obs) qs rs"
  have step: "\<And>x y z. unharmed t [ob] x y \<Longrightarrow> unharmed t obs y z \<Longrightarrow> unharmed t (ob # obs) x z"
    by (auto simp: unharmed_def)
  show ?thesis by (rule list_all2_trans [OF step a b])
qed

lemma collide_players_unharmed:
  "list_all2 (unharmed t [ob]) ps (fst (collide_players t ob ps))"
proof (induction ps)
  case Nil
  show ?case by simp
next
  case (Cons bp ps)
  obtain b p where bp: "bp = (b, p)" by (cases bp)
  obtain ps' hit where cp: "collide_players t ob ps = (ps', hit)"
    by (cases "collide_players t ob ps")
  show ?case
  proof (cases "hit_condition t ob p")
    case True
    then have "unharmed t [ob] (b, p) (b, apply_penalty t ob (reset_consecutive t p))"
      by (simp add: unharmed_def)
    with True show ?thesis
      unfolding bp by (simp add: collide_players_step unharmed_refl del: collide_players.simps(2))
  next
    case False
    have "unharmed t [ob] (b, p) (b, reset_consecutive t p)"
      by (simp add: unharmed_def)
    with False Cons.IH cp show ?thesis
      unfolding bp by (simp add: collide_players_step del: collide_players.simps(2))
  qed
qed

lemma players_before_unharmed:
  "list_all2 (unharmed t obs) ps (players_before t obs ps (length obs))"
proof (induction obs arbitrary: ps)
  case Nil
  show ?case by (simp add: unharmed_refl)
next
  case (Cons ob obs)
  show ?case
    using unharmed_step [OF collide_players_unharmed [of t ob ps]
        Cons.IH [of "fst (collide_players t ob ps)"]]
    by (simp add: players_before_Cons)
qed

lemma update_collisions_unharmed:
  "list_all2 (unharmed t (obstacles s)) (players s) (players (update_collisions t s))"
proof (cases "truthy (start_time s)")
  case False
  then show ?thesis by (simp add: update_collisions_idle unharmed_refl)
next
  case True
  show ?thesis
    by (simp add: update_collisions_general [OF True] players_before_unharmed)
qed


lemma scaled_penalty_5_1:
  "fl_trunc (fl_mul (fl_of_int 5) (fl_add fl_1_0 (fl_mul (fl_of_int 1) fl_0_3))) = 6"
  by (simp add: fl_trunc_def fl_mul_def fl_add_def fl_of_int_def fl_round_def round_shift_def
      fl_1_0_def fl_0_3_def Let_def)

lemma scaled_penalty_25_12:
  "fl_trunc (fl_mul (fl_of_int 25) (fl_add fl_1_0 (fl_mul (fl_of_int 12) fl_0_3))) = 114"
  by (simp add: fl_trunc_def fl_mul_def fl_add_def fl_of_int_def fl_round_def round_shift_def
      fl_1_0_def fl_0_3_def Let_def)


lemma demo_hit: "hit_condition 10 demo_bike demo_player"
  by (simp add: hit_condition_def demo_player_def demo_bike_def new_player_def
      is_invulnerable_def check_collision_def BLINK_DURATION_def LANE_X_def PLAYER_Y_def)

text \<open>
  Claim C1, as the spec states it: the penalty applied is the obstacle's base penalty
  times \<open>1 + 0.3 \<times> consecutive_collisions\<close>. The source passes the product through
  \<open>int(...)\<close>. A player with a score of 100 and one earlier collision meets a bike of
  base penalty 5: the claim gives \<open>100 - 6.5 = 93.5\<close>, the server leaves 94.
\<close>

theorem collision_penalty_not_scaled_exactly:
  "hit_condition 10 demo_bike demo_player \<and>
   consecutive_collisions (reset_consecutive 10 demo_player) = 1 \<and>
   map (\<lambda>(a, p). score p) (players (update_collisions 10 demo_server)) = [94] \<and>
   max 0 (score demo_player -
          of_int (obs_penalty demo_bike) *
            (1 + 0.3 * of_int (consecutive_collisions (reset_consecutive 10 demo_player))))
     = (93.5 :: real)"
proof -
  have a: "consecutive_collisions (reset_consecutive 10 demo_player) = 1"
    by (simp add: reset_consecutive_def demo_player_def new_player_def COLLISION_RESET_TIME_def)
  have s: "score demo_player = 100" "obs_penalty demo_bike = 5"
    by (simp_all add: demo_player_def demo_bike_def new_player_def)
  have b: "apply_penalty 10 demo_bike (reset_consecutive 10 demo_player) =
      demo_player\<lparr>score := 94, blink := 10, last_collision_time := 10,
        consecutive_collisions := 2\<rparr>"
    using scaled_penalty_5_1
    by (simp add: apply_penalty_reset demo_player_def demo_bike_def new_player_def
        COLLISION_RESET_TIME_def)
  have c: "collide_players 10 demo_bike [(demo_addr, demo_player)] =
      ([(demo_addr, apply_penalty 10 demo_bike (reset_consecutive 10 demo_player))], True)"
    using collide_players_first [of "[]" 10 demo_bike demo_player demo_addr "[]"] demo_hit
    by simp
  have d: "players (update_collisions 10 demo_server) =
      [(demo_addr, apply_penalty 10 demo_bike (reset_consecutive 10 demo_player))]"
    by (simp add: update_collisions_def demo_server_def truthy_def c
        del: collide_players.simps(2))
  show ?thesis
    using demo_hit a by (simp add: d b s)
qed

text \<open>
  Claim C1, amended. A player passes the test of the loop for an obstacle
  (\<open>hit_condition\<close>) when the player is neither invulnerable nor finished, the
  rectangle of the player (60 by 80 around the position) overlaps the rectangle of the
  obstacle (width and height less 5 on each side, around its position) and the lanes
  are equal.

  For one obstacle and the players in dictionary order, let \<open>p\<close> be the first player
  that passes the test. Every player before \<open>p\<close> only has the lazy reset of the
  collision counter applied, every player after \<open>p\<close> is not visited, and \<open>p\<close> becomes:
  score \<open>max(0, score - penalty)\<close>, blink and last-collision timestamps \<open>now\<close>, counter
  incremented, where the penalty is the base penalty when the counter (after the lazy
  reset) is zero and \<open>int(base * (1.0 + counter * 0.3))\<close>, computed in double precision
  and truncated toward zero, when it is positive. When no player passes the test, the
  obstacle hits nobody.

  A call of \<open>update_collisions\<close> in a round that has a start time does this for every
  obstacle of the list in turn, on the players as the obstacles before it left them;
  it counts one collision for each obstacle that hit a player and removes the obstacles
  that carry the id of one of these; nothing else of the server changes. Without a
  start time the call changes nothing. In every call, a player that passes the test for
  no obstacle of the list, a player in another lane than the obstacle whatever the
  rectangles do, is as before, up to the lazy reset of the counter.
\<close>

theorem collision_first_match_wins:
  assumes "\<forall>(b, q) \<in> set pre. \<not> hit_condition t ob q" and "hit_condition t ob p"
  shows "collide_players t ob (pre @ (a, p) # post) =
           (map (\<lambda>(b, q). (b, reset_consecutive t q)) pre @
            (a, (let c = (if t - last_collision_time p > COLLISION_RESET_TIME then 0
                          else consecutive_collisions p);
                     pen = (if c > 0
                            then fl_trunc (fl_mul (fl_of_int (obs_penalty ob))
                                             (fl_add fl_1_0 (fl_mul (fl_of_int c) fl_0_3)))
                            else obs_penalty ob)
                 in p\<lparr>score := max 0 (score p - of_int pen), blink := t,
                      last_collision_time := t, consecutive_collisions := c + 1\<rparr>)) # post,
            True)
       \<and> ((\<forall>(b, q) \<in> set ps. \<not> hit_condition t ob' q) \<longrightarrow>
            collide_players t ob' ps = (map (\<lambda>(b, q). (b, reset_consecutive t q)) ps, False))
       \<and> (truthy (start_time s) \<longrightarrow>
            update_collisions t s =
              s\<lparr>players := players_before t (obstacles s) (players s) (length (obstacles s)),
                total_collisions :=
                  total_collisions s + int (length (hit_indices t (obstacles s) (players s))),
                obstacles :=
                  filter (\<lambda>x. obs_id x \<notin> (\<lambda>k. obs_id (obstacles s ! k)) `
                                   set (hit_indices t (obstacles s) (players s)))
                    (obstacles s)\<rparr>)
       \<and> (\<not> truthy (start_time s0) \<longrightarrow> update_collisions t s0 = s0)
       \<and> list_all2 (unharmed t (obstacles s)) (players s) (players (update_collisions t s))
       \<and> hit_condition t ob' q' =
            (\<not> t - blink q' < BLINK_DURATION \<and> \<not> finished q' \<and>
             \<bar>pos_x q' - obs_x ob'\<bar> < 30 + (obs_width ob' / 2 - 5) \<and>
             \<bar>pos_y q' - obs_y ob'\<bar> < 40 + (obs_height ob' / 2 - 5) \<and>
             obs_lane ob' = lane q')"
proof -
  have first: "collide_players t ob (pre @ (a, p) # post) =
      (map (\<lambda>(b, q). (b, reset_consecutive t q)) pre @
       (a, apply_penalty t ob (reset_consecutive t p)) # post, True)"
    using assms by (rule collide_players_first)
  have none: "(\<forall>(b, q) \<in> set ps. \<not> hit_condition t ob' q) \<longrightarrow>
            collide_players t ob' ps = (map (\<lambda>(b, q). (b, reset_consecutive t q)) ps, False)"
    using collide_players_none [of ps t ob'] by blast
  have cond: "hit_condition t ob' q' =
            (\<not> t - blink q' < BLINK_DURATION \<and> \<not> finished q' \<and>
             \<bar>pos_x q' - obs_x ob'\<bar> < 30 + (obs_width ob' / 2 - 5) \<and>
             \<bar>pos_y q' - obs_y ob'\<bar> < 40 + (obs_height ob' / 2 - 5) \<and>
             obs_lane ob' = lane q')"
    by (simp add: hit_condition_def is_invulnerable_def check_collision_centres)
  show ?thesis
    using first none cond update_collisions_general [of s t] update_collisions_idle [of s0 t]
      update_collisions_unharmed [of t s]
    by (simp only: apply_penalty_reset) blast
qed

theorem collision_first_match_wins_witness:
  "map (\<lambda>(a, p). (score p, blink p, last_collision_time p, consecutive_collisions p))
     (fst (collide_players 10 demo_bike (players crowd_server))) =
     [(300, 0, 0, 0), (94, 10, 10, 2), (200, 8, 8, 12), (50, 0, 0, 0)] \<and>
   collide_players 10 demo_truck (players crowd_server) = (players crowd_server, False) \<and>
   map (\<lambda>(a, p). (score p, blink p, consecutive_collisions p))
     (players (update_collisions 10 crowd_server)) =
     [(300, 0, 0), (94, 10, 2), (86, 10, 13), (50, 0, 0)] \<and>
   obstacles (update_collisions 10 crowd_server) = [demo_truck] \<and>
   total_collisions (update_collisions 10 crowd_server) = 2 \<and>
   update_collisions 10 init_server = init_server \<and>
   check_collision crowd_D demo_truck \<and> \<not> hit_condition 10 demo_truck crowd_D"
proof -
  have h1: "\<forall>(b, q) \<in> set [((''10.0.0.1'', 5001), crowd_A)]. \<not> hit_condition 10 demo_bike q"
    by (simp add: hit_condition_def crowd_A_def)
  have h2: "hit_condition 10 demo_bike crowd_B"
    by (simp add: hit_condition_def crowd_B_def demo_bike_def new_player_def
      is_invulnerable_def check_collision_def BLINK_DURATION_def LANE_X_def PLAYER_Y_def)
  have h3: "\<forall>(b, q) \<in> set (players crowd_server). \<not> hit_condition 10 demo_truck q"
    by (simp add: hit_condition_def crowd_server_def crowd_A_def crowd_B_def crowd_C_def
      crowd_D_def demo_truck_def new_player_def)
  have h4: "truthy (start_time crowd_server)" "\<not> truthy (start_time init_server)"
    by (simp_all add: crowd_server_def init_server_def truthy_def)
  have ps: "players crowd_server =
      [((''10.0.0.1'', 5001), crowd_A)] @ ((''10.0.0.2'', 5002), crowd_B) #
      [((''10.0.0.3'', 5003), crowd_C), ((''10.0.0.4'', 5004), crowd_D)]"
    by (simp add: crowd_server_def)
  have rs: "map (\<lambda>(b, q). (b, reset_consecutive 10 q)) (players crowd_server) =
      players crowd_server"
    by (simp add: crowd_server_def reset_consecutive_def crowd_A_def crowd_B_def crowd_C_def
      crowd_D_def new_player_def COLLISION_RESET_TIME_def)
  have ov: "check_collision crowd_D demo_truck"
    by (simp add: check_collision_def crowd_D_def demo_truck_def new_player_def PLAYER_Y_def)
  note inst = collision_first_match_wins [OF h1 h2,
      of "(''10.0.0.2'', 5002)"
         "[((''10.0.0.3'', 5003), crowd_C), ((''10.0.0.4'', 5004), crowd_D)]"
         "players crowd_server" demo_truck crowd_server init_server crowd_D]
  have a: "map (\<lambda>(a, p). (score p, blink p, last_collision_time p, consecutive_collisions p))
     (fst (collide_players 10 demo_bike (players crowd_server))) =
     [(300, 0, 0, 0), (94, 10, 10, 2), (200, 8, 8, 12), (50, 0, 0, 0)]"
    using inst scaled_penalty_5_1 unfolding ps [symmetric]
    apply (simp only: ps fst_conv)
    apply (simp add: crowd_A_def crowd_B_def crowd_C_def crowd_D_def new_player_def
        reset_consecutive_def COLLISION_RESET_TIME_def demo_bike_def)
    done
  have b: "collide_players 10 demo_truck (players crowd_server) = (players crowd_server, False)"
    using inst h3 rs by simp
  have c: "\<not> hit_condition 10 demo_truck crowd_D"
    using h3 by (simp add: crowd_server_def)
  have d: "update_collisions 10 init_server = init_server"
    using inst h4 by simp
  have e: "map (\<lambda>(a, p). (score p, blink p, consecutive_collisions p))
     (players (update_collisions 10 crowd_server)) =
     [(300, 0, 0), (94, 10, 2), (86, 10, 13), (50, 0, 0)] \<and>
   obstacles (update_collisions 10 crowd_server) = [demo_truck] \<and>
   total_collisions (update_collisions 10 crowd_server) = 2"
    using scaled_penalty_5_1 scaled_penalty_25_12
    by (simp add: update_collisions_def crowd_server_def init_server_def truthy_def
        crowd_A_def crowd_B_def crowd_C_def crowd_D_def new_player_def
        demo_bike_def demo_bus_def demo_truck_def
        reset_consecutive_def is_invulnerable_def check_collision_def apply_penalty_def
        base_penalty_def penalty_multiplier_def
        COLLISION_RESET_TIME_def BLINK_DURATION_def LANE_X_def PLAYER_Y_def Let_def)
  show ?thesis
    using a b c d e ov by simp
qed

subsection \<open>The message handlers\<close>

lemma update_at_untracked:
  "a \<notin> fst ` set ps \<Longrightarrow> update_at a f ps = ps"
  by (induction ps) auto

lemma map_fst_update_at [simp]:
  "map fst (update_at a f ps) = map fst ps"
  by (induction ps) auto


lemma update_at_const:
  "map_of ps a = Some p \<Longrightarrow> update_at a f ps = update_at a (\<lambda>_. f p) ps"
  by (induction ps) auto

lemma tracked_map_of:
  "tracked a s = (map_of (players s) a \<noteq> None)"
  by (simp add: tracked_def map_of_eq_None_iff)

text \<open>
  Claim C10, as the spec states it: a heartbeat from an address with no tracked player
  is ignored and the server does not react to it. \<open>handle_heartbeat\<close> sends the
  \<open>heartbeat_ack\<close> outside the test for the address: a server without players answers
  the sender.
\<close>

theorem heartbeat_from_unknown_address_is_answered:
  "\<not> tracked demo_addr init_server \<and>
   handle_message Heartbeat demo_addr 4 5 init_server \<noteq> init_server \<and>
   outbox init_server = [] \<and>
   outbox (handle_message Heartbeat demo_addr 4 5 init_server) = [(demo_addr, HeartbeatAck)]"
  by (simp add: handle_message_def handle_heartbeat_def tracked_def init_server_def)

text \<open>
  Claim C10, amended: an input message from an address with no tracked player leaves the
  whole server state as it is and nothing is sent; a heartbeat from such an address
  changes no player and no session state, and the server answers it with one
  \<open>heartbeat_ack\<close> to the sender.
\<close>

theorem unknown_address_changes_no_state:
  assumes "\<not> tracked a s"
  shows "handle_message (Input left right up down) a current_time now s = s \<and>
         handle_message Heartbeat a current_time now s = s\<lparr>outbox := outbox s @ [(a, HeartbeatAck)]\<rparr>"
  using assms by (simp add: handle_message_def handle_input_def handle_heartbeat_def)

theorem unknown_address_changes_no_state_witness:
  "handle_message (Input True False True False) demo_addr 4 5 init_server = init_server \<and>
   players (handle_message Heartbeat demo_addr 4 5 init_server) = [] \<and>
   outbox (handle_message Heartbeat demo_addr 4 5 init_server) = [(demo_addr, HeartbeatAck)]"
proof -
  have h: "\<not> tracked demo_addr init_server"
    by (simp add: tracked_def init_server_def)
  show ?thesis
    using unknown_address_changes_no_state [OF h, of True False True False 4 5]
    by (simp add: init_server_def)
qed

lemma handle_input_tracked:
  assumes "map_of (players s) a = Some p" and "game_running s"
  shows "handle_input left right up down a current_time now s =
           s\<lparr>players := update_at a (\<lambda>_. input_player left right up down current_time now True p)
                          (players s)\<rparr>"
proof -
  have "tracked a s" using assms(1) by (simp add: tracked_map_of)
  then show ?thesis
    using assms
      update_at_const [OF assms(1), of "input_player left right up down current_time now True"]
    by (simp add: handle_input_def)
qed

text \<open>
  Claim C5, as the spec states it: every input message from a tracked player sets the
  vertical velocity. \<open>handle_input\<close> returns before reading the message when no round
  is running: the tracked player of the server below, between two rounds, sends
  \<open>up\<close> alone and keeps the vertical velocity 0.
\<close>

theorem input_ignored_while_no_round_runs:
  "tracked demo_addr (demo_server\<lparr>game_running := False\<rparr>) \<and>
   map (\<lambda>(a, p). vertical_speed p) (players (demo_server\<lparr>game_running := False\<rparr>)) = [0] \<and>
   map (\<lambda>(a, p). vertical_speed p)
     (players (handle_input False False True False demo_addr 10 10
        (demo_server\<lparr>game_running := False\<rparr>))) = [0] \<and>
   - VERTICAL_SPEED \<noteq> 0"
  by (simp add: handle_input_def tracked_def demo_server_def demo_player_def new_player_def
      VERTICAL_SPEED_def)

text \<open>
  Claim C5, amended. While a round is running, an input message from a tracked player
  whose lane is 0, 1 or 2 changes that player alone, as follows. The vertical velocity
  becomes \<open>- VERTICAL_SPEED\<close> for \<open>up\<close> alone, \<open>VERTICAL_SPEED\<close> for \<open>down\<close> alone and 0
  otherwise, whatever it was. A lane change is accepted when the transition is complete
  (\<open>move_progress \<ge> 1\<close>) and more than 0.5 seconds have passed since the player's last
  collision; \<open>left\<close> alone asks for the lane below, not under 0, \<open>right\<close> alone for the
  lane above, not over 2. When the change is accepted and the lane asked for differs
  from the current one, \<open>target_lane\<close> is set to it and \<open>move_progress\<close> to 0; in every
  other case both stay. The activity timestamp is set to the time the handler reads at
  its end. While no round is running, an input message changes nothing at all, whoever
  sends it.
\<close>

theorem handle_input_while_running:
  assumes "map_of (players s) a = Some p" and "game_running s"
    and "0 \<le> lane p" and "lane p \<le> 2"
  shows "handle_input left right up down a current_time now s =
     s\<lparr>players := update_at a
        (\<lambda>_. (let v = (if up \<and> \<not> down then - VERTICAL_SPEED
                        else if down \<and> \<not> up then VERTICAL_SPEED else 0);
                   accepted = (move_progress p \<ge> 1 \<and>
                               current_time - last_collision_time p > 0.5);
                   wanted = (if left \<and> \<not> right then max 0 (lane p - 1)
                             else if right \<and> \<not> left then min 2 (lane p + 1)
                             else lane p)
               in if accepted \<and> wanted \<noteq> lane p
                  then p\<lparr>vertical_speed := v, target_lane := wanted, move_progress := 0,
                         last_heartbeat := now\<rparr>
                  else p\<lparr>vertical_speed := v, last_heartbeat := now\<rparr>))
        (players s)\<rparr>
     \<and> (\<not> game_running s0 \<longrightarrow> handle_input left right up down a0 current_time now s0 = s0)"
proof -
  have "input_player left right up down current_time now True p =
      (let v = (if up \<and> \<not> down then - VERTICAL_SPEED
                        else if down \<and> \<not> up then VERTICAL_SPEED else 0);
                   accepted = (move_progress p \<ge> 1 \<and>
                               current_time - last_collision_time p > 0.5);
                   wanted = (if left \<and> \<not> right then max 0 (lane p - 1)
                             else if right \<and> \<not> left then min 2 (lane p + 1)
                             else lane p)
               in if accepted \<and> wanted \<noteq> lane p
                  then p\<lparr>vertical_speed := v, target_lane := wanted, move_progress := 0,
                         last_heartbeat := now\<rparr>
                  else p\<lparr>vertical_speed := v, last_heartbeat := now\<rparr>)"
    using assms(3,4) by (auto simp: input_player_def Let_def max_def min_def)
  moreover have "\<not> game_running s0 \<longrightarrow>
      handle_input left right up down a0 current_time now s0 = s0"
    by (simp add: handle_input_def)
  ultimately show ?thesis
    using handle_input_tracked [OF assms(1,2), of left right up down current_time now] by simp
qed

theorem handle_input_while_running_witness:
  "map (\<lambda>(a, p). (vertical_speed p, lane p, target_lane p, move_progress p, last_heartbeat p))
     (players (handle_input True False True False (''10.0.0.2'', 5002) 10 11 crowd_server)) =
     [(0, 1, 1, 1, 0), (- 200, 1, 0, 0, 11), (0, 1, 1, 1, 0), (0, 1, 2, 6 / 10, 0)] \<and>
   map (\<lambda>(a, p). (vertical_speed p, lane p, target_lane p, move_progress p, last_heartbeat p))
     (players (handle_input True False False True (''10.0.0.2'', 5002) (17/2) 9 crowd_server)) =
     [(0, 1, 1, 1, 0), (200, 1, 1, 1, 9), (0, 1, 1, 1, 0), (0, 1, 2, 6 / 10, 0)] \<and>
   handle_input True False True False demo_addr 10 11 (demo_server\<lparr>game_running := False\<rparr>) =
     demo_server\<lparr>game_running := False\<rparr>"
proof -
  have h: "map_of (players crowd_server) (''10.0.0.2'', 5002) = Some crowd_B"
      "game_running crowd_server" "0 \<le> lane crowd_B" "lane crowd_B \<le> 2"
    by (simp_all add: crowd_server_def crowd_B_def new_player_def)
  have g: "\<not> game_running (demo_server\<lparr>game_running := False\<rparr>)" by simp
  have p: "players crowd_server =
     [((''10.0.0.1'', 5001), crowd_A), ((''10.0.0.2'', 5002), crowd_B),
      ((''10.0.0.3'', 5003), crowd_C), ((''10.0.0.4'', 5004), crowd_D)]"
    by (simp add: crowd_server_def)
  show ?thesis
    using handle_input_while_running [OF h, of True False True False 10 11
        "demo_server\<lparr>game_running := False\<rparr>" demo_addr]
      handle_input_while_running [OF h, of True False False True "17/2" 9
        "demo_server\<lparr>game_running := False\<rparr>" demo_addr] g
    by (simp add: p crowd_A_def crowd_B_def crowd_C_def crowd_D_def new_player_def
        VERTICAL_SPEED_def)
qed











subsection \<open>The client's filter of stale states\<close>

lemma update_players_last_seq [simp]:
  "last_seq (fst (update_players infos c)) = last_seq c"
  by (induction infos arbitrary: c) (auto simp: Let_def split: option.splits)

lemma handle_state_stale:
  "js_seq p = Some n \<Longrightarrow> n \<le> last_seq c \<Longrightarrow> handle_state p c = c"
  by (simp add: handle_state_def)

lemma handle_state_fresh:
  assumes "js_seq p = Some n" and "last_seq c < n"
  shows "last_seq (handle_state p c) = n"
proof -
  let ?c2 = "c\<lparr>last_seq := n,
               client_game_running := (case js_game_running p of None \<Rightarrow> False | Some b \<Rightarrow> b),
               game_time_left := (case js_time_left p of None \<Rightarrow> 0 | Some t \<Rightarrow> t)\<rparr>"
  let ?l = "case js_players p of None \<Rightarrow> [] | Some l \<Rightarrow> l"
  obtain c3 ok where u: "update_players ?l ?c2 = (c3, ok)"
    by (cases "update_players ?l ?c2")
  have "last_seq c3 = n"
    using update_players_last_seq [of ?l ?c2] u by simp
  then show ?thesis
    using assms u by (simp add: handle_state_def Let_def)
qed

lemma handle_state_no_seq:
  "js_seq p = None \<Longrightarrow> last_seq (handle_state p c) = last_seq c"
proof -
  assume a: "js_seq p = None"
  let ?c2 = "c\<lparr>client_game_running := (case js_game_running p of None \<Rightarrow> False | Some b \<Rightarrow> b),
               game_time_left := (case js_time_left p of None \<Rightarrow> 0 | Some t \<Rightarrow> t)\<rparr>"
  let ?l = "case js_players p of None \<Rightarrow> [] | Some l \<Rightarrow> l"
  obtain c3 ok where u: "update_players ?l ?c2 = (c3, ok)"
    by (cases "update_players ?l ?c2")
  have "last_seq c3 = last_seq c"
    using update_players_last_seq [of ?l ?c2] u by simp
  then show ?thesis
    using a u by (simp add: handle_state_def Let_def)
qed

lemma client_receive_last_seq:
  "last_seq (client_receive m c) =
     (case m of StateMsg p \<Rightarrow> (case js_seq p of Some n \<Rightarrow> max n (last_seq c) | None \<Rightarrow> last_seq c)
              | _ \<Rightarrow> last_seq c)"
proof (cases m)
  case (StateMsg p)
  show ?thesis
  proof (cases "js_seq p")
    case None
    then show ?thesis using StateMsg by (simp add: client_receive_def handle_state_no_seq)
  next
    case (Some n)
    show ?thesis
    proof (cases "n \<le> last_seq c")
      case True
      then show ?thesis
        using StateMsg Some by (simp add: client_receive_def handle_state_stale [OF Some])
    next
      case False
      then have "last_seq c < n" by simp
      from handle_state_fresh [OF Some this] False show ?thesis
        using StateMsg Some by (simp add: client_receive_def)
    qed
  qed
qed (simp_all add: client_receive_def split: option.splits)

lemma client_run_last_seq:
  "last_seq (client_run ms c) = fold max (state_seqs ms) (last_seq c)"
proof (induction ms arbitrary: c)
  case Nil
  show ?case by (simp add: state_seqs_def)
next
  case (Cons m ms)
  have "state_seqs (m # ms) =
      (case m of StateMsg p \<Rightarrow> (case js_seq p of Some n \<Rightarrow> [n] | None \<Rightarrow> []) | _ \<Rightarrow> []) @
      state_seqs ms"
    by (simp add: state_seqs_def)
  then show ?case
    by (simp add: Cons.IH client_receive_last_seq split: server_msg.splits option.splits)
qed

lemma fold_max_Max:
  "fold max xs (a :: int) = Max (insert a (set xs))"
proof (induction xs arbitrary: a)
  case Nil
  show ?case by simp
next
  case (Cons x xs)
  have "Max (insert (max x a) (set xs)) = Max (insert a (insert x (set xs)))"
    by (cases "set xs = {}") (auto simp: max.commute max.left_commute)
  then show ?case by (simp add: Cons.IH)
qed

lemma client_run_last_seq_Max:
  "last_seq (client_run ms c) = Max (insert (last_seq c) (set (state_seqs ms)))"
  by (simp add: client_run_last_seq fold_max_Max)

lemma client_run_last_seq_mono:
  "last_seq c \<le> last_seq (client_run ms c)"
  by (simp add: client_run_last_seq_Max)

text \<open>
  Claim C6. A state message whose sequence number is at most the last one the client
  has seen leaves the whole state of the client as it is: players, obstacles, flags and
  the last sequence number. A state message with a larger sequence number makes that
  number the last one seen. After any list of datagrams the last sequence number is the
  largest among the initial one and those of the state messages of the list. A client
  that has applied a state with sequence number \<open>s2\<close> and then handles any datagrams
  discards a state with sequence number \<open>s1 < s2\<close> that arrives after them.
\<close>

theorem stale_state_discarded:
  "(js_seq p = Some n \<and> n \<le> last_seq c \<longrightarrow>
      client_receive (StateMsg p) c = c) \<and>
   (js_seq p = Some n \<and> last_seq c < n \<longrightarrow>
      last_seq (client_receive (StateMsg p) c) = n) \<and>
   last_seq (client_run ms c) = Max (insert (last_seq c) (set (state_seqs ms))) \<and>
   (js_seq p2 = Some s2 \<and> last_seq c < s2 \<and> js_seq p1 = Some s1 \<and> s1 < s2 \<longrightarrow>
      client_run (StateMsg p2 # ms @ [StateMsg p1]) c = client_run (StateMsg p2 # ms) c)"
proof -
  have A: "js_seq p = Some n \<and> n \<le> last_seq c \<longrightarrow> client_receive (StateMsg p) c = c"
    by (simp add: client_receive_def handle_state_stale)
  have B: "js_seq p = Some n \<and> last_seq c < n \<longrightarrow>
      last_seq (client_receive (StateMsg p) c) = n"
    by (simp add: client_receive_def handle_state_fresh)
  have app: "\<And>xs ys d. client_run (xs @ ys) d = client_run ys (client_run xs d)"
  proof -
    fix xs ys d show "client_run (xs @ ys) d = client_run ys (client_run xs d)"
      by (induction xs arbitrary: d) simp_all
  qed
  have D: "js_seq p2 = Some s2 \<and> last_seq c < s2 \<and> js_seq p1 = Some s1 \<and> s1 < s2 \<longrightarrow>
      client_run (StateMsg p2 # ms @ [StateMsg p1]) c = client_run (StateMsg p2 # ms) c"
  proof
    assume h: "js_seq p2 = Some s2 \<and> last_seq c < s2 \<and> js_seq p1 = Some s1 \<and> s1 < s2"
    let ?c2 = "client_receive (StateMsg p2) c"
    have "last_seq ?c2 = s2" using h by (simp add: client_receive_def handle_state_fresh)
    then have "s2 \<le> last_seq (client_run ms ?c2)"
      using client_run_last_seq_mono [of ?c2 ms] by simp
    then have "s1 \<le> last_seq (client_run ms ?c2)" using h by simp
    then have "client_receive (StateMsg p1) (client_run ms ?c2) = client_run ms ?c2"
      using h by (simp add: client_receive_def handle_state_stale)
    then show "client_run (StateMsg p2 # ms @ [StateMsg p1]) c = client_run (StateMsg p2 # ms) c"
      by (simp add: app)
  qed
  show ?thesis
    using A B D client_run_last_seq_Max [of ms c] by blast
qed

theorem stale_state_discarded_witness:
  "last_seq (client_run [StateMsg (demo_state 7 520)] init_client) = 7 \<and>
   client_receive (StateMsg (demo_state 5 480))
     (client_run [StateMsg (demo_state 7 520)] init_client) =
     client_run [StateMsg (demo_state 7 520)] init_client \<and>
   client_run [StateMsg (demo_state 7 520), JoinAckMsg (Some 1), StateMsg (demo_state 5 480)]
     init_client =
     client_run [StateMsg (demo_state 7 520), JoinAckMsg (Some 1)] init_client \<and>
   map_option tgt_x (targets (client_run
     [StateMsg (demo_state 7 520), JoinAckMsg (Some 1), StateMsg (demo_state 5 480)]
     init_client) 1) = Some 520 \<and>
   last_seq (client_run
     [StateMsg (demo_state 5 480), StateMsg (demo_state 7 520), StateMsg (demo_state 6 500)]
     init_client) = 7"
proof -
  have s: "js_seq (demo_state 7 520) = Some 7" "js_seq (demo_state 5 480) = Some 5"
      "js_seq (demo_state 6 500) = Some 6" "last_seq init_client = - 1"
    by (simp_all add: demo_state_def init_client_def)
  have c7: "last_seq (client_receive (StateMsg (demo_state 7 520)) init_client) = 7"
    using stale_state_discarded [of "demo_state 7 520" 7 init_client] s by simp
  have st: "client_receive (StateMsg (demo_state 5 480))
      (client_receive (StateMsg (demo_state 7 520)) init_client) =
      client_receive (StateMsg (demo_state 7 520)) init_client"
    using stale_state_discarded [of "demo_state 5 480" 5
        "client_receive (StateMsg (demo_state 7 520)) init_client"] s c7 by simp
  have late: "client_run
      [StateMsg (demo_state 7 520), JoinAckMsg (Some 1), StateMsg (demo_state 5 480)] init_client =
      client_run [StateMsg (demo_state 7 520), JoinAckMsg (Some 1)] init_client"
    using stale_state_discarded [of _ _ init_client "[JoinAckMsg (Some 1)]"
        "demo_state 7 520" 7 "demo_state 5 480" 5] s by simp
  have tg: "map_option tgt_x (targets (client_run
      [StateMsg (demo_state 7 520), JoinAckMsg (Some 1)] init_client) 1) = Some 520"
    by (simp add: client_receive_def handle_state_def demo_state_def init_client_def Let_def)
  have mx: "last_seq (client_run
     [StateMsg (demo_state 5 480), StateMsg (demo_state 7 520), StateMsg (demo_state 6 500)]
     init_client) = 7"
    using stale_state_discarded [of _ _ init_client
       "[StateMsg (demo_state 5 480), StateMsg (demo_state 7 520), StateMsg (demo_state 6 500)]"]
      s by (simp add: state_seqs_def)
  show ?thesis
    using c7 st late tg mx by simp
qed

subsection \<open>Movement\<close>

lemma lane_x_in_range:
  "l \<in> {0, 1, 2} \<Longrightarrow> lane_x l = Inr (LANE_X ! nat l)"
  by (auto simp: lane_x_def)

lemma move_player_in_range:
  assumes "lane p \<in> {0, 1, 2}" and "target_lane p \<in> {0, 1, 2}"
  shows "move_player dt g p =
     Inr (let dur = (if g > 0.7 then LANE_CHANGE_DURATION * 0.8 else LANE_CHANGE_DURATION);
              mp = min 1 (move_progress p + dt / dur);
              eased = 1 + (1.70158 * 1.525) * (mp - 1) ^ 3 + 1.70158 * (mp - 1) ^ 2;
              y' = (if vertical_speed p \<noteq> 0
                    then max MIN_PLAYER_Y (min MAX_PLAYER_Y (pos_y p + vertical_speed p * dt))
                    else pos_y p)
          in if move_progress p < 1 then
               (if 1 \<le> move_progress p + dt / dur
                then p\<lparr>move_progress := 1, pos_x := LANE_X ! nat (target_lane p),
                       lane := target_lane p, pos_y := y'\<rparr>
                else p\<lparr>move_progress := mp,
                       pos_x := LANE_X ! nat (lane p) +
                                (LANE_X ! nat (target_lane p) - LANE_X ! nat (lane p)) * eased,
                       pos_y := y'\<rparr>)
             else p\<lparr>pos_y := y'\<rparr>)"
proof -
  have a: "lane_x (lane p) = Inr (LANE_X ! nat (lane p))"
    and b: "lane_x (target_lane p) = Inr (LANE_X ! nat (target_lane p))"
    using assms by (simp_all add: lane_x_in_range)
  show ?thesis
    by (simp add: move_player_def move_lane_def move_vertical_def ease_out_back_def a b Let_def
        min_def)
qed


lemma move_all_map:
  "\<forall>(a, p) \<in> set ps. move_player dt g p = Inr (f p) \<Longrightarrow>
   move_all dt g ps = Inr (map (\<lambda>(a, p). (a, f p)) ps)"
  by (induction ps) auto

lemma move_vertical_clamp:
  "MIN_PLAYER_Y \<le> pos_y p \<Longrightarrow> pos_y p \<le> MAX_PLAYER_Y \<Longrightarrow>
   (if vertical_speed p \<noteq> 0
    then max MIN_PLAYER_Y (min MAX_PLAYER_Y (pos_y p + vertical_speed p * dt))
    else pos_y p) =
   max MIN_PLAYER_Y (min MAX_PLAYER_Y (pos_y p + vertical_speed p * dt))"
  by simp

text \<open>
  Claim C4. With every player in a lane and on the way to a lane of the road (0, 1 or
  2) and at a height between \<open>MIN_PLAYER_Y\<close> and \<open>MAX_PLAYER_Y\<close>, a tick of length \<open>dt\<close>
  does not raise and moves every player as follows. The duration of a transition is
  \<open>LANE_CHANGE_DURATION\<close>, times 0.8 once the progress of the round exceeds 0.7. For a
  player with \<open>move_progress < 1\<close>: \<open>move_progress\<close> grows by \<open>dt\<close> over the duration,
  at most to 1; when that reaches 1 the lane becomes the target lane and \<open>x\<close> the
  centre of that lane; otherwise \<open>x\<close> is the centre of the current lane plus the
  distance to the centre of the target lane times \<open>ease(move_progress)\<close>, with
  \<open>ease(x) = 1 + c2 (x - 1)\<^sup>3 + c1 (x - 1)\<^sup>2\<close>, \<open>c1 = 1.70158\<close>, \<open>c2 = c1 \<times> 1.525\<close>. A player
  with \<open>move_progress \<ge> 1\<close> keeps lane, progress and \<open>x\<close>. For every player \<open>y\<close> becomes
  \<open>y\<close> plus the vertical velocity times \<open>dt\<close>, clamped to
  \<open>[MIN_PLAYER_Y, MAX_PLAYER_Y]\<close>. Nothing else of the server changes.
\<close>

theorem movement_tick:
  assumes "\<forall>(a, p) \<in> set (players s).
             lane p \<in> {0, 1, 2} \<and> target_lane p \<in> {0, 1, 2} \<and>
             MIN_PLAYER_Y \<le> pos_y p \<and> pos_y p \<le> MAX_PLAYER_Y"
  shows "update_player_movements dt s =
     Inr (s\<lparr>players := map (\<lambda>(a, p). (a,
       (let dur = (if game_progress s > 0.7 then LANE_CHANGE_DURATION * 0.8
                   else LANE_CHANGE_DURATION);
            mp = min 1 (move_progress p + dt / dur);
            eased = 1 + (1.70158 * 1.525) * (mp - 1) ^ 3 + 1.70158 * (mp - 1) ^ 2;
            y' = max MIN_PLAYER_Y (min MAX_PLAYER_Y (pos_y p + vertical_speed p * dt))
        in if move_progress p < 1 then
             (if 1 \<le> move_progress p + dt / dur
              then p\<lparr>move_progress := 1, lane := target_lane p,
                     pos_x := LANE_X ! nat (target_lane p), pos_y := y'\<rparr>
              else p\<lparr>move_progress := mp,
                     pos_x := LANE_X ! nat (lane p) +
                              (LANE_X ! nat (target_lane p) - LANE_X ! nat (lane p)) * eased,
                     pos_y := y'\<rparr>)
           else p\<lparr>pos_y := y'\<rparr>))) (players s)\<rparr>)"
proof -
  let ?f = "\<lambda>p. (let dur = (if game_progress s > 0.7 then LANE_CHANGE_DURATION * 0.8
                   else LANE_CHANGE_DURATION);
            mp = min 1 (move_progress p + dt / dur);
            eased = 1 + (1.70158 * 1.525) * (mp - 1) ^ 3 + 1.70158 * (mp - 1) ^ 2;
            y' = max MIN_PLAYER_Y (min MAX_PLAYER_Y (pos_y p + vertical_speed p * dt))
        in if move_progress p < 1 then
             (if 1 \<le> move_progress p + dt / dur
              then p\<lparr>move_progress := 1, lane := target_lane p,
                     pos_x := LANE_X ! nat (target_lane p), pos_y := y'\<rparr>
              else p\<lparr>move_progress := mp,
                     pos_x := LANE_X ! nat (lane p) +
                              (LANE_X ! nat (target_lane p) - LANE_X ! nat (lane p)) * eased,
                     pos_y := y'\<rparr>)
           else p\<lparr>pos_y := y'\<rparr>)"
  have "\<forall>(a, p) \<in> set (players s). move_player dt (game_progress s) p = Inr (?f p)"
  proof (clarify)
    fix a b p assume "((a, b), p) \<in> set (players s)"
    with assms have l: "lane p \<in> {0, 1, 2}" "target_lane p \<in> {0, 1, 2}"
      and y: "MIN_PLAYER_Y \<le> pos_y p" "pos_y p \<le> MAX_PLAYER_Y" by auto
    show "move_player dt (game_progress s) p = Inr (?f p)"
      unfolding move_player_in_range [OF l] using move_vertical_clamp [OF y, of dt]
      by (simp add: Let_def)
  qed
  from move_all_map [OF this] show ?thesis
    by (simp add: update_player_movements_def)
qed

theorem movement_tick_witness:
  "map_sum id (\<lambda>s'. map (\<lambda>(a, p). (lane p, move_progress p, pos_x p, pos_y p)) (players s'))
     (update_player_movements (6 / 100) crowd_moving) =
     Inr [(1, 1, 500, 100), (1, 1, 500, 312), (1, 8 / 10, 886825981 / 1250000, 300)] \<and>
   map_sum id (\<lambda>s'. map (\<lambda>(a, p). (lane p, move_progress p, pos_x p, pos_y p)) (players s'))
     (update_player_movements (1 / 10) (crowd_moving\<lparr>game_progress := 8 / 10\<rparr>)) =
     Inr [(1, 1, 500, 100), (1, 1, 500, 320), (2, 1, 700, 300)]"
proof -
  have p: "players crowd_moving =
      [((''10.0.0.2'', 5002), crowd_B\<lparr>vertical_speed := - 200, pos_y := 105\<rparr>),
       ((''10.0.0.3'', 5003), crowd_C\<lparr>vertical_speed := 200\<rparr>),
       ((''10.0.0.4'', 5004), crowd_D)]"
      "game_progress crowd_moving = 0"
    by (simp_all add: crowd_moving_def crowd_server_def init_server_def)
  have h: "\<forall>(a, p) \<in> set (players crowd_moving).
             lane p \<in> {0, 1, 2} \<and> target_lane p \<in> {0, 1, 2} \<and>
             MIN_PLAYER_Y \<le> pos_y p \<and> pos_y p \<le> MAX_PLAYER_Y"
    by (simp add: p crowd_B_def crowd_C_def crowd_D_def new_player_def
        MIN_PLAYER_Y_def MAX_PLAYER_Y_def PLAYER_Y_def)
  have h': "\<forall>(a, p) \<in> set (players (crowd_moving\<lparr>game_progress := 8 / 10\<rparr>)).
             lane p \<in> {0, 1, 2} \<and> target_lane p \<in> {0, 1, 2} \<and>
             MIN_PLAYER_Y \<le> pos_y p \<and> pos_y p \<le> MAX_PLAYER_Y"
    using h by simp
  show ?thesis
    using movement_tick [OF h, of "6 / 100"] movement_tick [OF h', of "1 / 10"]
    by (simp add: p crowd_B_def crowd_C_def crowd_D_def new_player_def
        MIN_PLAYER_Y_def MAX_PLAYER_Y_def PLAYER_Y_def LANE_X_def LANE_CHANGE_DURATION_def
        power3_eq_cube power2_eq_square)
qed

end
